theory Spec2Isabelle
  imports Main "HOL-Library.Sublist"
begin

section \<open>JavaScript values as the fetch helper sees them\<close>

text \<open>
  The helper of \<^verbatim>\<open>src/fetch-utils.js\<close> works on values that come out of
  \<^verbatim>\<open>response.json()\<close> and on \<^verbatim>\<open>undefined\<close>, which a missing property reads as.
  Strings are lists of code units below 256. Numbers are the integers of magnitude
  below \<open>2^53\<close>, which a JavaScript number holds exactly and prints in decimal;
  fractions, larger numbers, infinities and NaN are outside the model.
  An object is the list of its own properties, the first binding of a key being the
  property of that name.
\<close>

datatype json =
    JUndefined
  | JNull
  | JBool bool
  | JNum int
  | JStr string
  | JArr "json list"
  | JObj "(string \<times> json) list"

text \<open>
  What the code can throw. \<open>Error\<close> is \<^verbatim>\<open>new Error(message)\<close> of the source itself;
  \<open>TypeError\<close> and \<open>SyntaxError\<close> are raised by the runtime (a property read on
  \<^verbatim>\<open>null\<close>, a call of something that is no function, a rejected \<^verbatim>\<open>fetch\<close>, a body
  that is no JSON). Each carries its \<^verbatim>\<open>message\<close>.
\<close>

datatype error =
    Error string
  | TypeError string
  | SyntaxError string
  | RangeError string

fun message :: "error \<Rightarrow> string" where
  "message (Error m) = m"
| "message (TypeError m) = m"
| "message (SyntaxError m) = m"
| "message (RangeError m) = m"

text \<open>Sequencing of steps that may throw: the first throw ends the computation.\<close>

definition and_then :: "error + 'a \<Rightarrow> ('a \<Rightarrow> error + 'b) \<Rightarrow> error + 'b" where
  "and_then m f = (case m of Inl e \<Rightarrow> Inl e | Inr x \<Rightarrow> f x)"

text \<open>Truthiness: what \<^verbatim>\<open>!v\<close>, \<^verbatim>\<open>v || d\<close>, \<^verbatim>\<open>if (v)\<close> and \<^verbatim>\<open>while (v)\<close> test.\<close>

fun truthy :: "json \<Rightarrow> bool" where
  "truthy JUndefined = False"
| "truthy JNull = False"
| "truthy (JBool b) = b"
| "truthy (JNum n) = (n \<noteq> 0)"
| "truthy (JStr s) = (s \<noteq> [])"
| "truthy (JArr xs) = True"
| "truthy (JObj kvs) = True"

text \<open>\<^verbatim>\<open>a || b\<close> on values.\<close>

definition or_else :: "json \<Rightarrow> json \<Rightarrow> json" where
  "or_else a b = (if truthy a then a else b)"

subsection \<open>Conversion to a string, as a template literal does it\<close>

text \<open>
  An object prints as \<^verbatim>\<open>[object Object]\<close>. That is what JavaScript does for an
  object without a \<^verbatim>\<open>toString\<close> property of its own; an object parsed from JSON
  that has one makes the conversion throw, and such objects are outside the model, as
  are the integers from \<open>10^21\<close> on, which JavaScript prints with an exponent.
\<close>

fun digits :: "nat \<Rightarrow> string" where
  "digits n =
     (if n < 10 then [char_of (48 + n)]
      else digits (n div 10) @ [char_of (48 + n mod 10)])"

declare digits.simps [simp del]

definition string_of_int :: "int \<Rightarrow> string" where
  "string_of_int i = (if i < 0 then CHR ''-'' # digits (nat (- i)) else digits (nat i))"

fun join_comma :: "string list \<Rightarrow> string" where
  "join_comma [] = []"
| "join_comma [s] = s"
| "join_comma (s # t # ss) = s @ CHR '','' # join_comma (t # ss)"

fun to_string :: "json \<Rightarrow> string" where
  "to_string JUndefined = ''undefined''"
| "to_string JNull = ''null''"
| "to_string (JBool b) = (if b then ''true'' else ''false'')"
| "to_string (JNum n) = string_of_int n"
| "to_string (JStr s) = s"
| "to_string (JArr xs) =
     join_comma (map (\<lambda>x. if x = JNull \<or> x = JUndefined then [] else to_string x) xs)"
| "to_string (JObj kvs) = ''[object Object]''"

subsection \<open>Property reads\<close>

text \<open>
  \<^verbatim>\<open>v.name\<close> for the names the source reads (\<^verbatim>\<open>results\<close>, \<^verbatim>\<open>next\<close>,
  \<^verbatim>\<open>job_property_names\<close>, \<^verbatim>\<open>length\<close>, \<^verbatim>\<open>id\<close>): a read on \<^verbatim>\<open>null\<close> or
  \<^verbatim>\<open>undefined\<close> throws, an array or a string has a \<^verbatim>\<open>length\<close>, an object has its own
  properties, and everything else reads as \<^verbatim>\<open>undefined\<close>.
\<close>

fun get_member :: "json \<Rightarrow> string \<Rightarrow> error + json" where
  "get_member JUndefined k =
     Inl (TypeError (''Cannot read properties of undefined (reading '' @ k @ '')''))"
| "get_member JNull k =
     Inl (TypeError (''Cannot read properties of null (reading '' @ k @ '')''))"
| "get_member (JArr xs) k =
     Inr (if k = ''length'' then JNum (int (length xs)) else JUndefined)"
| "get_member (JStr s) k =
     Inr (if k = ''length'' then JNum (int (length s)) else JUndefined)"
| "get_member (JObj kvs) k =
     Inr (case map_of kvs k of None \<Rightarrow> JUndefined | Some v \<Rightarrow> v)"
| "get_member (JBool b) k = Inr JUndefined"
| "get_member (JNum n) k = Inr JUndefined"

text \<open>
  \<^verbatim>\<open>v[i]\<close> for a number \<open>i\<close>: an element of an array, a one-character string of a
  string, the property named by the decimal numeral of an object; \<^verbatim>\<open>undefined\<close> out of
  range (so always at \<open>-1\<close> on an array or a string).
\<close>

fun get_index :: "json \<Rightarrow> int \<Rightarrow> error + json" where
  "get_index JUndefined i =
     Inl (TypeError (''Cannot read properties of undefined (reading '' @ string_of_int i @ '')''))"
| "get_index JNull i =
     Inl (TypeError (''Cannot read properties of null (reading '' @ string_of_int i @ '')''))"
| "get_index (JArr xs) i =
     Inr (if 0 \<le> i \<and> i < int (length xs) then xs ! nat i else JUndefined)"
| "get_index (JStr s) i =
     Inr (if 0 \<le> i \<and> i < int (length s) then JStr [s ! nat i] else JUndefined)"
| "get_index (JObj kvs) i =
     Inr (case map_of kvs (string_of_int i) of None \<Rightarrow> JUndefined | Some v \<Rightarrow> v)"
| "get_index (JBool b) i = Inr JUndefined"
| "get_index (JNum n) i = Inr JUndefined"

subsection \<open>The string and array methods the source calls\<close>

text \<open>\<^verbatim>\<open>s.indexOf(pat)\<close> on a string: the first position where \<open>pat\<close> starts, else -1.\<close>

fun str_index_from :: "string \<Rightarrow> string \<Rightarrow> nat \<Rightarrow> int" where
  "str_index_from pat [] k = (if pat = [] then int k else - 1)"
| "str_index_from pat (c # cs) k =
     (if prefix pat (c # cs) then int k else str_index_from pat cs (Suc k))"

text \<open>\<^verbatim>\<open>xs.indexOf(v)\<close> on an array: the first position holding a strictly equal value.\<close>

fun arr_index_from :: "json \<Rightarrow> json list \<Rightarrow> nat \<Rightarrow> int" where
  "arr_index_from v [] k = - 1"
| "arr_index_from v (x # xs) k = (if x = v then int k else arr_index_from v xs (Suc k))"

text \<open>
  \<^verbatim>\<open>v.indexOf(name)\<close> for a string \<open>name\<close>. Only arrays and strings have the method;
  on anything else the call throws.
\<close>

fun indexOf :: "json \<Rightarrow> string \<Rightarrow> error + int" where
  "indexOf (JArr xs) name = Inr (arr_index_from (JStr name) xs 0)"
| "indexOf (JStr s) name = Inr (str_index_from name s 0)"
| "indexOf JUndefined name =
     Inl (TypeError ''Cannot read properties of undefined (reading indexOf)'')"
| "indexOf JNull name =
     Inl (TypeError ''Cannot read properties of null (reading indexOf)'')"
| "indexOf v name = Inl (TypeError ''propertyNames.indexOf is not a function'')"

text \<open>\<^verbatim>\<open>v.endsWith(suf)\<close>: a method of strings only.\<close>

fun endsWith :: "json \<Rightarrow> string \<Rightarrow> error + bool" where
  "endsWith (JStr s) suf = Inr (suffix suf s)"
| "endsWith JUndefined suf =
     Inl (TypeError ''Cannot read properties of undefined (reading endsWith)'')"
| "endsWith JNull suf =
     Inl (TypeError ''Cannot read properties of null (reading endsWith)'')"
| "endsWith v suf = Inl (TypeError ''jobName.endsWith is not a function'')"

text \<open>
  \<^verbatim>\<open>xs.concat(v)\<close>: the elements of \<open>v\<close> are appended when \<open>v\<close> is an array, \<open>v\<close>
  itself otherwise.
\<close>

fun concat_js :: "json list \<Rightarrow> json \<Rightarrow> json list" where
  "concat_js xs (JArr ys) = xs @ ys"
| "concat_js xs v = xs @ [v]"

text \<open>
  \<^verbatim>\<open>s.replace(pat, rep)\<close> with a string pattern: the first occurrence of \<open>pat\<close> is
  replaced (\<open>rep\<close> holds no \<^verbatim>\<open>$\<close> here).
\<close>

fun replace_first :: "string \<Rightarrow> string \<Rightarrow> string \<Rightarrow> string" where
  "replace_first pat rep [] = (if pat = [] then rep else [])"
| "replace_first pat rep (c # cs) =
     (if prefix pat (c # cs) then rep @ drop (length pat) (c # cs)
      else c # replace_first pat rep cs)"

section \<open>The page and the network\<close>

text \<open>
  The page state the helper reads: \<^verbatim>\<open>window.location.protocol\<close>,
  \<^verbatim>\<open>window.location.hostname\<close> and what
  \<^verbatim>\<open>new URLSearchParams(window.location.search).get('kind')\<close> returns (\<open>None\<close> for
  \<^verbatim>\<open>null\<close>, the parameter being absent).
\<close>

record window =
  protocol :: string
  hostname :: string
  kind :: "string option"

text \<open>
  A response as the helper uses it: \<^verbatim>\<open>status\<close>, \<^verbatim>\<open>statusText\<close>, and what
  \<^verbatim>\<open>response.json()\<close> does: it yields the parsed body, or throws the
  \<^verbatim>\<open>SyntaxError\<close> of a body that is no JSON. \<^verbatim>\<open>response.ok\<close> is defined by the Fetch
  standard as a status from 200 to 299.
\<close>

record response =
  status :: nat
  statusText :: string
  body :: "error + json"

definition ok :: "response \<Rightarrow> bool" where
  "ok r = (200 \<le> status r \<and> status r \<le> 299)"

text \<open>
  The network answers a request for a URL with a response, or the request fails and
  \<^verbatim>\<open>fetch\<close> rejects. Every call of \<^verbatim>\<open>fetch\<close> is recorded in a log of the URLs
  requested, oldest first.
\<close>

type_synonym network = "string \<Rightarrow> error + response"

type_synonym log = "string list"

definition fetch :: "network \<Rightarrow> string \<Rightarrow> log \<Rightarrow> (error + response) \<times> log" where
  "fetch net url lg = (net url, lg @ [url])"

section \<open>Harness selection\<close>

text \<open>\<^verbatim>\<open>getHarnessType\<close>: \<^verbatim>\<open>urlParams.get('kind') || 'xpcshell'\<close>.\<close>

definition getHarnessType :: "window \<Rightarrow> string" where
  "getHarnessType win =
     (case kind win of None \<Rightarrow> ''xpcshell''
      | Some k \<Rightarrow> if k \<noteq> [] then k else ''xpcshell'')"

text \<open>
  The harness detection of \<^verbatim>\<open>fetchData\<close> (the \<^verbatim>\<open>let harness = 'xpcshell'\<close>
  block of its remote branch).
\<close>

definition detectHarness :: "window \<Rightarrow> string \<Rightarrow> string" where
  "detectHarness win filename =
     (if prefix ''mochitest-'' filename then ''mochitest''
      else if filename = ''index.json'' then getHarnessType win
      else ''xpcshell'')"


section \<open>Fetching\<close>

text \<open>\<^verbatim>\<open>fetchFromCI(harness, filename)\<close>: the latest artifact of the index.\<close>

definition ci_url :: "window \<Rightarrow> string \<Rightarrow> string \<Rightarrow> string" where
  "ci_url win harness filename =
     (let repository = (if hostname win = ''fqueze.github.io'' then ''try'' else ''mozilla-central'')
      in ''https://firefox-ci-tc.services.mozilla.com/api/index/v1/task/gecko.v2.'' @ repository
           @ ''.latest.source.test-info-'' @ harness @ ''-timings/artifacts/public/'' @ filename)"

definition fetchFromCI ::
  "window \<Rightarrow> network \<Rightarrow> string \<Rightarrow> string \<Rightarrow> log \<Rightarrow> (error + response) \<times> log" where
  "fetchFromCI win net harness filename lg = fetch net (ci_url win harness filename) lg"

text \<open>
  \<^verbatim>\<open>fetchJson(url)\<close>: \<^verbatim>\<open>null\<close> when the response is not ok, else what
  \<^verbatim>\<open>response.json()\<close> gives. A rejected \<^verbatim>\<open>fetch\<close> and the \<^verbatim>\<open>SyntaxError\<close> of the
  body are not caught here.
\<close>

definition fetchJson :: "network \<Rightarrow> string \<Rightarrow> log \<Rightarrow> (error + json) \<times> log" where
  "fetchJson net u lg =
     (case fetch net u lg of
        (Inl e, lg') \<Rightarrow> (Inl e, lg')
      | (Inr response, lg') \<Rightarrow>
          if \<not> ok response then (Inr JNull, lg') else (body response, lg'))"

section \<open>The job locator: \<^verbatim>\<open>findTimingsJobsForRevision\<close>\<close>

definition push_url :: "string \<Rightarrow> string" where
  "push_url revision =
     ''https://treeherder.mozilla.org/api/project/try/push/?full=true&count=10&revision='' @ revision"

definition jobs_url :: "json \<Rightarrow> string" where
  "jobs_url pushId = ''https://treeherder.mozilla.org/api/jobs/?push_id='' @ to_string pushId"

text \<open>
  The check of the push lookup and \<^verbatim>\<open>pushResult.results[0].id\<close>.
\<close>

definition push_id_of :: "string \<Rightarrow> json \<Rightarrow> error + json" where
  "push_id_of revision pushResult =
     (let no_push = Inl (Error (''No push found for revision '' @ revision @ '' on try''))
      in if \<not> truthy pushResult then no_push
         else and_then (get_member pushResult ''results'') (\<lambda>results.
              if \<not> truthy results then no_push
              else and_then (get_member results ''length'') (\<lambda>len.
                   if len = JNum 0 then no_push
                   else and_then (get_index results 0) (\<lambda>first.
                        get_member first ''id''))))"

text \<open>The variables of the pagination loop.\<close>

record page_state =
  allJobs :: "json list"
  propertyNames :: json
  url :: json

text \<open>The loop body after the check of \<^verbatim>\<open>result\<close>.\<close>

definition page_update :: "json \<Rightarrow> page_state \<Rightarrow> error + page_state" where
  "page_update result s =
     and_then (get_member result ''results'') (\<lambda>results.
     and_then (get_member (propertyNames s) ''length'') (\<lambda>len.
     and_then (if \<not> truthy len
               then and_then (get_member result ''job_property_names'')
                      (\<lambda>names. Inr (or_else names (JArr [])))
               else Inr (propertyNames s)) (\<lambda>names'.
     and_then (get_member result ''next'') (\<lambda>next.
       Inr \<lparr>allJobs = concat_js (allJobs s) (or_else results (JArr [])),
            propertyNames = names',
            url = next\<rparr>))))"

text \<open>One turn of the loop: fetch the page at \<open>url\<close>, fail on \<^verbatim>\<open>null\<close>, update.\<close>

definition page_step ::
  "network \<Rightarrow> json \<Rightarrow> page_state \<Rightarrow> log \<Rightarrow> (error + page_state) \<times> log" where
  "page_step net pushId s lg =
     (case fetchJson net (to_string (url s)) lg of
        (Inl e, lg') \<Rightarrow> (Inl e, lg')
      | (Inr result, lg') \<Rightarrow>
          if \<not> truthy result
          then (Inl (Error (''Failed to fetch jobs for push ID '' @ to_string pushId)), lg')
          else (page_update result s, lg'))"

text \<open>
  \<^verbatim>\<open>while (url) { ... }\<close>. Nothing bounds the number of pages, so the loop need not
  end: \<open>None\<close> is the call that never returns.
\<close>

partial_function (option) fetch_pages ::
  "network \<Rightarrow> json \<Rightarrow> page_state \<Rightarrow> log \<Rightarrow> ((error + page_state) \<times> log) option" where
  "fetch_pages net pushId s lg =
     (if truthy (url s) then
        (case page_step net pushId s lg of
           (Inl e, lg') \<Rightarrow> Some (Inl e, lg')
         | (Inr s', lg') \<Rightarrow> fetch_pages net pushId s' lg')
      else Some (Inr s, lg))"

declare fetch_pages.simps [code]

text \<open>The result of the locator: a task id or \<^verbatim>\<open>null\<close> for each harness.\<close>

record timingsJobs =
  xpcshell :: json
  mochitest :: json

text \<open>
  The scan \<^verbatim>\<open>for (const job of allJobs)\<close>, with the three column indices and the
  summary built so far.
\<close>

fun scan_jobs :: "int \<Rightarrow> int \<Rightarrow> int \<Rightarrow> json list \<Rightarrow> timingsJobs \<Rightarrow> error + timingsJobs" where
  "scan_jobs jobTypeNameIndex taskIdIndex stateIndex [] tj = Inr tj"
| "scan_jobs jobTypeNameIndex taskIdIndex stateIndex (job # jobs) tj =
     and_then (get_index job jobTypeNameIndex) (\<lambda>jobName.
     and_then (get_index job stateIndex) (\<lambda>state.
     and_then (get_index job taskIdIndex) (\<lambda>taskId.
       if state \<noteq> JStr ''completed'' \<or> \<not> truthy jobName \<or> \<not> truthy taskId
       then scan_jobs jobTypeNameIndex taskIdIndex stateIndex jobs tj
       else and_then (endsWith jobName ''xpcshell-timings-rev'') (\<lambda>x.
            if x then scan_jobs jobTypeNameIndex taskIdIndex stateIndex jobs (tj\<lparr>xpcshell := taskId\<rparr>)
            else and_then (endsWith jobName ''mochitest-timings-rev'') (\<lambda>m.
                 if m then scan_jobs jobTypeNameIndex taskIdIndex stateIndex jobs (tj\<lparr>mochitest := taskId\<rparr>)
                 else scan_jobs jobTypeNameIndex taskIdIndex stateIndex jobs tj)))))"

text \<open>The part of the locator after the loop: the indices, then the scan.\<close>

definition find_timings :: "json \<Rightarrow> json list \<Rightarrow> error + timingsJobs" where
  "find_timings names jobs =
     and_then (indexOf names ''job_type_name'') (\<lambda>jobTypeNameIndex.
     and_then (indexOf names ''task_id'') (\<lambda>taskIdIndex.
     and_then (indexOf names ''state'') (\<lambda>stateIndex.
       scan_jobs jobTypeNameIndex taskIdIndex stateIndex jobs
         \<lparr>xpcshell = JNull, mochitest = JNull\<rparr>)))"

text \<open>
  The whole locator. Its \<^verbatim>\<open>catch\<close> logs and rethrows, so every throw leaves the
  function as it is.
\<close>

definition findTimingsJobsForRevision ::
  "network \<Rightarrow> string \<Rightarrow> log \<Rightarrow> ((error + timingsJobs) \<times> log) option" where
  "findTimingsJobsForRevision net revision lg =
     (case fetchJson net (push_url revision) lg of
        (Inl e, lg1) \<Rightarrow> Some (Inl e, lg1)
      | (Inr pushResult, lg1) \<Rightarrow>
          (case push_id_of revision pushResult of
             Inl e \<Rightarrow> Some (Inl e, lg1)
           | Inr pushId \<Rightarrow>
               (case fetch_pages net pushId
                       \<lparr>allJobs = [], propertyNames = JArr [], url = JStr (jobs_url pushId)\<rparr> lg1 of
                  None \<Rightarrow> None
                | Some (Inl e, lg2) \<Rightarrow> Some (Inl e, lg2)
                | Some (Inr s, lg2) \<Rightarrow> Some (find_timings (propertyNames s) (allJobs s), lg2))))"

section \<open>The orchestrator: \<^verbatim>\<open>fetchData\<close>\<close>

text \<open>
  \<^verbatim>\<open>filename.match(/^(xpcshell|mochitest)-try-([a-f0-9]{40})\.json$/)\<close>: the two groups
  of the match, or \<open>None\<close> for \<^verbatim>\<open>null\<close>. \<open>match_try h\<close> is the match with the
  alternative \<open>h\<close> of the first group.
\<close>

definition is_hex :: "char \<Rightarrow> bool" where
  "is_hex c = (c \<in> set ''abcdef0123456789'')"

definition match_try :: "string \<Rightarrow> string \<Rightarrow> (string \<times> string) option" where
  "match_try h filename =
     (let rest = drop (length h + 5) filename
      in if prefix (h @ ''-try-'') filename \<and> list_all is_hex (take 40 rest)
            \<and> length (take 40 rest) = 40 \<and> drop 40 rest = ''.json''
         then Some (h, take 40 rest) else None)"

definition tryMatch :: "string \<Rightarrow> (string \<times> string) option" where
  "tryMatch filename =
     (case match_try ''xpcshell'' filename of
        Some m \<Rightarrow> Some m
      | None \<Rightarrow> match_try ''mochitest'' filename)"

text \<open>
  \<^verbatim>\<open>new Response(null, {status, statusText})\<close>. The constructor of the Fetch standard
  throws a \<^verbatim>\<open>RangeError\<close> for a status outside 200 to 599 and a \<^verbatim>\<open>TypeError\<close> for a
  status text that is no HTTP reason phrase (tab, space, visible ASCII and the bytes from
  128 on). The body is empty, so \<^verbatim>\<open>json()\<close> on the result throws.
\<close>

definition reason_phrase :: "string \<Rightarrow> bool" where
  "reason_phrase s =
     list_all (\<lambda>c. c = CHR 0x09 \<or> c = CHR '' '' \<or>
                  (0x21 \<le> (of_char c :: nat) \<and> (of_char c :: nat) \<le> 0x7E) \<or>
                  0x80 \<le> (of_char c :: nat)) s"

definition new_Response :: "nat \<Rightarrow> string \<Rightarrow> error + response" where
  "new_Response st txt =
     (if st < 200 \<or> 599 < st then Inl (RangeError ''The status provided is outside the range [200, 599].'')
      else if \<not> reason_phrase txt then Inl (TypeError ''Invalid statusText'')
      else Inr \<lparr>status = st, statusText = txt,
                body = Inl (SyntaxError ''Unexpected end of JSON input'')\<rparr>)"

text \<open>The \<^verbatim>\<open>catch\<close> block of the try-revision branch.\<close>

definition catch_404 :: "error \<Rightarrow> error + response" where
  "catch_404 e = new_Response 404 (message e)"

definition artifact_url :: "json \<Rightarrow> string \<Rightarrow> string" where
  "artifact_url taskId filename =
     ''https://firefox-ci-tc.services.mozilla.com/api/queue/v1/task/'' @ to_string taskId
       @ ''/runs/0/artifacts/public/'' @ filename"

text \<open>\<^verbatim>\<open>timingsJobs[requestedHarness]\<close>.\<close>

definition tj_get :: "timingsJobs \<Rightarrow> string \<Rightarrow> json" where
  "tj_get tj h =
     (if h = ''xpcshell'' then xpcshell tj
      else if h = ''mochitest'' then mochitest tj
      else JUndefined)"

text \<open>
  The end of the \<^verbatim>\<open>try\<close> block: the fall-back to the mochitest artifact, else the
  throw of "no job found", which the \<^verbatim>\<open>catch\<close> turns into a response. The fall-back
  is \<^verbatim>\<open>return fetch(artifactUrl)\<close> without \<^verbatim>\<open>await\<close>: the function has left the
  \<^verbatim>\<open>try\<close> block when that promise settles, so its rejection is not caught.
\<close>

definition try_fallback ::
  "network \<Rightarrow> string \<Rightarrow> string \<Rightarrow> string \<Rightarrow> timingsJobs \<Rightarrow> log \<Rightarrow> (error + response) \<times> log" where
  "try_fallback net filename requestedHarness revision tj lg =
     (if requestedHarness = ''xpcshell'' \<and> truthy (mochitest tj)
      then fetch net
             (artifact_url (mochitest tj) (replace_first ''xpcshell-'' ''mochitest-'' filename)) lg
      else (catch_404 (Error (''No '' @ requestedHarness @ ''-timings job found for revision ''
                                @ revision)), lg))"

text \<open>The \<^verbatim>\<open>try\<close> block after the locator has returned \<open>tj\<close>.\<close>

definition try_artifact ::
  "network \<Rightarrow> string \<Rightarrow> string \<Rightarrow> string \<Rightarrow> timingsJobs \<Rightarrow> log \<Rightarrow> (error + response) \<times> log" where
  "try_artifact net filename requestedHarness revision tj lg =
     (if truthy (tj_get tj requestedHarness)
      then (case fetch net (artifact_url (tj_get tj requestedHarness) filename) lg of
              (Inl e, lg') \<Rightarrow> (catch_404 e, lg')
            | (Inr response, lg') \<Rightarrow>
                if ok response then (Inr response, lg')
                else try_fallback net filename requestedHarness revision tj lg')
      else try_fallback net filename requestedHarness revision tj lg)"

text \<open>The try-revision branch (\<^verbatim>\<open>if (tryMatch) { ... }\<close>).\<close>

definition fetch_try_revision ::
  "network \<Rightarrow> string \<Rightarrow> string \<Rightarrow> string \<Rightarrow> log \<Rightarrow> ((error + response) \<times> log) option" where
  "fetch_try_revision net filename requestedHarness revision lg =
     (case findTimingsJobsForRevision net revision lg of
        None \<Rightarrow> None
      | Some (Inl e, lg') \<Rightarrow> Some (catch_404 e, lg')
      | Some (Inr tj, lg') \<Rightarrow> Some (try_artifact net filename requestedHarness revision tj lg'))"

text \<open>The rest of the remote branch: the index of the detected harness.\<close>

definition fetch_remote ::
  "window \<Rightarrow> network \<Rightarrow> string \<Rightarrow> log \<Rightarrow> (error + response) \<times> log" where
  "fetch_remote win net filename lg =
     (case fetchFromCI win net (detectHarness win filename) filename lg of
        (Inl e, lg') \<Rightarrow> (Inl e, lg')
      | (Inr response, lg') \<Rightarrow>
          if ok response then (Inr response, lg')
          else if prefix ''xpcshell-try-'' filename
          then fetchFromCI win net ''mochitest''
                 (replace_first ''xpcshell-'' ''mochitest-'' filename) lg'
          else (Inr response, lg'))"

text \<open>The local branch: a rejected first fetch is caught and logged.\<close>

definition fetch_local :: "network \<Rightarrow> string \<Rightarrow> log \<Rightarrow> (error + response) \<times> log" where
  "fetch_local net filename lg =
     (case fetch net (''./data/'' @ filename) lg of
        (first, lg') \<Rightarrow>
          if (case first of Inl e \<Rightarrow> False | Inr response \<Rightarrow> ok response) then (first, lg')
          else if prefix ''xpcshell-try-'' filename
          then fetch net (''./data/'' @ replace_first ''xpcshell-'' ''mochitest-'' filename) lg'
          else fetch net (''./data/'' @ filename) lg')"

text \<open>
  \<^verbatim>\<open>fetchData(filename)\<close>: the response it resolves to or the error it rejects with,
  and the requests made; \<open>None\<close> when it never settles.
\<close>

definition fetchData ::
  "window \<Rightarrow> network \<Rightarrow> string \<Rightarrow> log \<Rightarrow> ((error + response) \<times> log) option" where
  "fetchData win net filename lg =
     (if protocol win = ''https:'' then
        (case tryMatch filename of
           Some (requestedHarness, revision) \<Rightarrow>
             fetch_try_revision net filename requestedHarness revision lg
         | None \<Rightarrow> Some (fetch_remote win net filename lg))
      else Some (fetch_local net filename lg))"

section \<open>Notions in which the properties are stated\<close>

text \<open>A property read that cannot throw, for values known not to be \<^verbatim>\<open>null\<close>.\<close>

definition member :: "json \<Rightarrow> string \<Rightarrow> json" where
  "member v k = (case get_member v k of Inl e \<Rightarrow> JUndefined | Inr x \<Rightarrow> x)"

text \<open>The rows a page of the listing contributes: \<^verbatim>\<open>result.results || []\<close>.\<close>

definition page_rows :: "json \<Rightarrow> json list" where
  "page_rows p = concat_js [] (or_else (member p ''results'') (JArr []))"

text \<open>
  \<open>page_chain net u ps\<close>: starting at the link \<open>u\<close>, the listing consists of
  exactly the pages \<open>ps\<close>: each link is present, its fetch gives the next page, the
  \<^verbatim>\<open>next\<close> of that page is the link of the one after, and the last page has none.
\<close>

fun page_chain :: "network \<Rightarrow> json \<Rightarrow> json list \<Rightarrow> bool" where
  "page_chain net u [] = (\<not> truthy u)"
| "page_chain net u (p # ps) =
     (truthy u \<and> fst (fetchJson net (to_string u) []) = Inr p \<and> truthy p \<and>
      page_chain net (member p ''next'') ps)"

text \<open>
  \<open>chain_fails net u ps\<close>: the pages \<open>ps\<close> are listed as above, and the fetch of the
  page after them gives \<^verbatim>\<open>null\<close>.
\<close>

fun chain_fails :: "network \<Rightarrow> json \<Rightarrow> json list \<Rightarrow> bool" where
  "chain_fails net u [] = (truthy u \<and> fst (fetchJson net (to_string u) []) = Inr JNull)"
| "chain_fails net u (p # ps) =
     (truthy u \<and> fst (fetchJson net (to_string u) []) = Inr p \<and> truthy p \<and>
      chain_fails net (member p ''next'') ps)"

text \<open>The links requested for the pages \<open>ps\<close>, starting at \<open>u\<close>.\<close>

fun page_links :: "json \<Rightarrow> json list \<Rightarrow> string list" where
  "page_links u [] = []"
| "page_links u (p # ps) = to_string u # page_links (member p ''next'') ps"

text \<open>The property names after the pages \<open>ps\<close>: those of the first page that has any.\<close>

fun names_after :: "json \<Rightarrow> json list \<Rightarrow> json" where
  "names_after names [] = names"
| "names_after names (p # ps) =
     names_after (if truthy (member names ''length'') then names
                  else or_else (member p ''job_property_names'') (JArr [])) ps"

text \<open>The value of a column of a row.\<close>

definition field :: "json \<Rightarrow> int \<Rightarrow> json" where
  "field job i = (case get_index job i of Inl e \<Rightarrow> JUndefined | Inr v \<Rightarrow> v)"

text \<open>
  The condition on a row in words: its state is exactly \<^verbatim>\<open>"completed"\<close> and its
  job-type name and task id are truthy.
\<close>

definition passes_filter :: "int \<Rightarrow> int \<Rightarrow> int \<Rightarrow> json \<Rightarrow> bool" where
  "passes_filter jn ti st job =
     (field job st = JStr ''completed'' \<and> truthy (field job jn) \<and> truthy (field job ti))"

definition is_string :: "json \<Rightarrow> bool" where
  "is_string v = (case v of JStr s \<Rightarrow> True | _ \<Rightarrow> False)"

definition name_ends_with :: "json \<Rightarrow> string \<Rightarrow> bool" where
  "name_ends_with v suf = (case v of JStr s \<Rightarrow> suffix suf s | _ \<Rightarrow> False)"

text \<open>A row qualifies for the harness \<open>h\<close>.\<close>

definition qualifies :: "int \<Rightarrow> int \<Rightarrow> int \<Rightarrow> string \<Rightarrow> json \<Rightarrow> bool" where
  "qualifies jn ti st h job =
     (passes_filter jn ti st job \<and> name_ends_with (field job jn) (h @ ''-timings-rev''))"

text \<open>
  The task id of the last qualifying row in listed order, \<^verbatim>\<open>null\<close> when there is none.
\<close>

definition last_task :: "int \<Rightarrow> int \<Rightarrow> int \<Rightarrow> string \<Rightarrow> json list \<Rightarrow> json" where
  "last_task jn ti st h jobs =
     (case rev (filter (qualifies jn ti st h) jobs) of
        [] \<Rightarrow> JNull
      | job # earlier \<Rightarrow> field job ti)"

text \<open>
  The rows of the data model: a row is a value with columns (not \<^verbatim>\<open>null\<close>), and the
  job-type name of a row that passes the filter is a string.
\<close>

definition scannable :: "int \<Rightarrow> int \<Rightarrow> int \<Rightarrow> json \<Rightarrow> bool" where
  "scannable jn ti st job =
     (job \<noteq> JNull \<and> job \<noteq> JUndefined \<and>
      (passes_filter jn ti st job \<longrightarrow> is_string (field job jn)))"

section \<open>A listing of two pages, for the examples\<close>

text \<open>
  A push with id 555 whose jobs are listed on two pages: a completed xpcshell timings
  job \<^verbatim>\<open>T1\<close> on the first, and on the second an xpcshell timings job \<^verbatim>\<open>T2\<close> that is
  still running and a completed mochitest timings job \<^verbatim>\<open>T3\<close>. The network is given the
  first page, the answer for the second page and the answer for the mochitest artifact
  of \<^verbatim>\<open>T3\<close>; every other URL is not found.
\<close>

definition example_revision :: string where
  "example_revision = ''0123456789abcdef0123456789abcdef01234567''"

definition example_window :: window where
  "example_window = \<lparr>protocol = ''https:'', hostname = ''localhost'', kind = None\<rparr>"

definition ok_json :: "json \<Rightarrow> error + response" where
  "ok_json v = Inr \<lparr>status = 200, statusText = ''OK'', body = Inr v\<rparr>"

definition not_found :: "error + response" where
  "not_found = Inr \<lparr>status = 404, statusText = ''Not Found'',
                    body = Inl (SyntaxError ''Unexpected token'')\<rparr>"

definition example_names :: json where
  "example_names = JArr [JStr ''job_type_name'', JStr ''task_id'', JStr ''state'']"

definition example_page1 :: "json \<Rightarrow> json" where
  "example_page1 names = JObj [
     (''results'', JArr [JArr [JStr ''test-info-xpcshell-timings-rev'', JStr ''T1'', JStr ''completed'']]),
     (''job_property_names'', names),
     (''next'', JStr ''https://treeherder.mozilla.org/api/jobs/?push_id=555&page=2'')]"

definition example_page2 :: json where
  "example_page2 = JObj [
     (''results'', JArr [JArr [JStr ''test-info-xpcshell-timings-rev'', JStr ''T2'', JStr ''running''],
                         JArr [JStr ''test-info-mochitest-timings-rev'', JStr ''T3'', JStr ''completed'']]),
     (''job_property_names'', example_names),
     (''next'', JNull)]"

definition example_net :: "json \<Rightarrow> error + response \<Rightarrow> error + response \<Rightarrow> network" where
  "example_net first second artifact =
     (\<lambda>u. not_found)
       (push_url example_revision :=
          ok_json (JObj [(''results'', JArr [JObj [(''id'', JNum 555)]])]),
        jobs_url (JNum 555) := ok_json first,
        ''https://treeherder.mozilla.org/api/jobs/?push_id=555&page=2'' := second,
        artifact_url (JStr ''T3'') (''mochitest-try-'' @ example_revision @ ''.json'') := artifact)"

section \<open>Properties\<close>

subsection \<open>Auxiliary facts\<close>

lemma replace_first_prefix:
  "prefix pat s \<Longrightarrow> replace_first pat rep s = rep @ drop (length pat) s"
  by (cases s) auto

lemma fetchJson_log: "fetchJson net u lg = (fst (fetchJson net u []), lg @ [u])"
  by (simp add: fetchJson_def fetch_def split: sum.splits)

subsection \<open>Harness selection\<close>

text \<open>
  C8. Harness selection maps a filename and page parameter as follows: a filename that
  starts with \<^verbatim>\<open>mochitest-\<close> gives \<^verbatim>\<open>mochitest\<close>; \<^verbatim>\<open>index.json\<close> gives the value of the
  page parameter when it is present and not empty, and \<^verbatim>\<open>xpcshell\<close> otherwise; every
  other filename gives \<^verbatim>\<open>xpcshell\<close>.
\<close>

theorem C8_harness_selection:
  "(prefix ''mochitest-'' filename \<longrightarrow> detectHarness win filename = ''mochitest'') \<and>
   (filename = ''index.json'' \<longrightarrow> kind win = Some k \<longrightarrow> k \<noteq> [] \<longrightarrow>
      detectHarness win filename = k) \<and>
   (filename = ''index.json'' \<longrightarrow> kind win = None \<or> kind win = Some [] \<longrightarrow>
      detectHarness win filename = ''xpcshell'') \<and>
   (\<not> prefix ''mochitest-'' filename \<longrightarrow> filename \<noteq> ''index.json'' \<longrightarrow>
      detectHarness win filename = ''xpcshell'')"
  by (auto simp: detectHarness_def getHarnessType_def)

theorem C8_harness_selection_witness:
  "detectHarness \<lparr>protocol = ''https:'', hostname = ''localhost'', kind = Some ''xpcshell''\<rparr>
      ''mochitest-try-abc.json'' = ''mochitest'' \<and>
   detectHarness \<lparr>protocol = ''https:'', hostname = ''localhost'', kind = Some ''mochitest''\<rparr>
      ''index.json'' = ''mochitest'' \<and>
   detectHarness \<lparr>protocol = ''https:'', hostname = ''localhost'', kind = None\<rparr>
      ''index.json'' = ''xpcshell'' \<and>
   detectHarness \<lparr>protocol = ''https:'', hostname = ''localhost'', kind = Some ''mochitest''\<rparr>
      ''xpcshell-foo.json'' = ''xpcshell''"
  using
    C8_harness_selection [of "''mochitest-try-abc.json''"
      "\<lparr>protocol = ''https:'', hostname = ''localhost'', kind = Some ''xpcshell''\<rparr>" "''x''"]
    C8_harness_selection [of "''index.json''"
      "\<lparr>protocol = ''https:'', hostname = ''localhost'', kind = Some ''mochitest''\<rparr>" "''mochitest''"]
    C8_harness_selection [of "''index.json''"
      "\<lparr>protocol = ''https:'', hostname = ''localhost'', kind = None\<rparr>" "''x''"]
    C8_harness_selection [of "''xpcshell-foo.json''"
      "\<lparr>protocol = ''https:'', hostname = ''localhost'', kind = Some ''mochitest''\<rparr>" "''x''"]
  by simp

text \<open>
  C9, as stated: harness selection always returns \<^verbatim>\<open>xpcshell\<close> or \<^verbatim>\<open>mochitest\<close>, also
  for \<^verbatim>\<open>index.json\<close> with the page parameter \<^verbatim>\<open>foo\<close>. The code returns the parameter
  as it is: the result is \<^verbatim>\<open>foo\<close>.
\<close>

theorem C9_counterexample:
  "detectHarness \<lparr>protocol = ''https:'', hostname = ''localhost'', kind = Some ''foo''\<rparr>
     ''index.json'' \<notin> {''xpcshell'', ''mochitest''}"
  by (simp add: detectHarness_def getHarnessType_def)

text \<open>
  C9, amended. Harness selection has no error conditions. Its result is \<^verbatim>\<open>xpcshell\<close>
  or \<^verbatim>\<open>mochitest\<close>, or, for \<^verbatim>\<open>index.json\<close> only, the value of the page parameter
  unchanged; it is one of the two literals for every filename other than
  \<^verbatim>\<open>index.json\<close>, and for \<^verbatim>\<open>index.json\<close> whenever the page parameter is absent,
  empty, or one of the two literals.
\<close>

theorem C9_harness_values:
  "(detectHarness win filename \<in> {''xpcshell'', ''mochitest''} \<or>
      (filename = ''index.json'' \<and> kind win = Some (detectHarness win filename))) \<and>
   (filename \<noteq> ''index.json'' \<or>
    kind win \<in> {None, Some [], Some ''xpcshell'', Some ''mochitest''} \<longrightarrow>
      detectHarness win filename \<in> {''xpcshell'', ''mochitest''}) \<and>
   (filename = ''index.json'' \<longrightarrow> kind win = Some k \<longrightarrow> k \<noteq> [] \<longrightarrow>
      detectHarness win filename = k)"
  by (auto simp: detectHarness_def getHarnessType_def split: option.splits)

theorem C9_harness_values_witness:
  "detectHarness \<lparr>protocol = ''https:'', hostname = ''localhost'', kind = Some ''foo''\<rparr>
      ''xpcshell-foo.json'' \<in> {''xpcshell'', ''mochitest''} \<and>
   detectHarness \<lparr>protocol = ''https:'', hostname = ''localhost'', kind = Some ''mochitest''\<rparr>
      ''index.json'' \<in> {''xpcshell'', ''mochitest''} \<and>
   detectHarness \<lparr>protocol = ''https:'', hostname = ''localhost'', kind = Some ''foo''\<rparr>
      ''index.json'' = ''foo''"
  using
    C9_harness_values [where
      win = "\<lparr>protocol = ''https:'', hostname = ''localhost'', kind = Some ''foo''\<rparr>"
      and filename = "''xpcshell-foo.json''" and k = "''foo''"]
    C9_harness_values [where
      win = "\<lparr>protocol = ''https:'', hostname = ''localhost'', kind = Some ''mochitest''\<rparr>"
      and filename = "''index.json''" and k = "''mochitest''"]
    C9_harness_values [where
      win = "\<lparr>protocol = ''https:'', hostname = ''localhost'', kind = Some ''foo''\<rparr>"
      and filename = "''index.json''" and k = "''foo''"]
  by simp

subsection \<open>The JSON fetcher\<close>

text \<open>
  C7. For a response whose status is not from 200 to 299, \<^verbatim>\<open>fetchJson\<close> returns
  \<^verbatim>\<open>null\<close>; for a response with such a status and a body that is JSON it returns the
  parsed body; for one whose body is no JSON the error of the parse is thrown on.
\<close>

theorem C7_fetchJson:
  "(net u = Inr r \<longrightarrow> \<not> (200 \<le> status r \<and> status r \<le> 299) \<longrightarrow>
      fetchJson net u lg = (Inr JNull, lg @ [u])) \<and>
   (net u = Inr r \<longrightarrow> 200 \<le> status r \<and> status r \<le> 299 \<longrightarrow> body r = Inr v \<longrightarrow>
      fetchJson net u lg = (Inr v, lg @ [u])) \<and>
   (net u = Inr r \<longrightarrow> 200 \<le> status r \<and> status r \<le> 299 \<longrightarrow> body r = Inl e \<longrightarrow>
      fetchJson net u lg = (Inl e, lg @ [u]))"
  by (simp add: fetchJson_def fetch_def ok_def)

theorem C7_fetchJson_witness:
  "fetchJson (\<lambda>u. Inr \<lparr>status = 404, statusText = ''Not Found'', body = Inr (JNum 1)\<rparr>)
      ''u'' [] = (Inr JNull, [''u'']) \<and>
   fetchJson (\<lambda>u. Inr \<lparr>status = 200, statusText = ''OK'', body = Inr (JObj [(''id'', JNum 7)])\<rparr>)
      ''u'' [] = (Inr (JObj [(''id'', JNum 7)]), [''u'']) \<and>
   fetchJson (\<lambda>u. Inr \<lparr>status = 200, statusText = ''OK'',
                        body = Inl (SyntaxError ''Unexpected token'')\<rparr>)
      ''u'' [] = (Inl (SyntaxError ''Unexpected token''), [''u''])"
  using
    C7_fetchJson [of "\<lambda>u. Inr \<lparr>status = 404, statusText = ''Not Found'', body = Inr (JNum 1)\<rparr>"
      "''u''" "\<lparr>status = 404, statusText = ''Not Found'', body = Inr (JNum 1)\<rparr>" "[]"
      "JNum 1" "SyntaxError []"]
    C7_fetchJson [of "\<lambda>u. Inr \<lparr>status = 200, statusText = ''OK'', body = Inr (JObj [(''id'', JNum 7)])\<rparr>"
      "''u''" "\<lparr>status = 200, statusText = ''OK'', body = Inr (JObj [(''id'', JNum 7)])\<rparr>" "[]"
      "JObj [(''id'', JNum 7)]" "SyntaxError []"]
    C7_fetchJson [of "\<lambda>u. Inr \<lparr>status = 200, statusText = ''OK'',
                        body = Inl (SyntaxError ''Unexpected token'')\<rparr>"
      "''u''" "\<lparr>status = 200, statusText = ''OK'', body = Inl (SyntaxError ''Unexpected token'')\<rparr>" "[]"
      "JNull" "SyntaxError ''Unexpected token''"]
  by simp

subsection \<open>The dispatch of the orchestrator\<close>

lemma match_try_Some:
  "match_try h filename = Some (h', r) \<longleftrightarrow>
     h' = h \<and> length r = 40 \<and> list_all is_hex r \<and> filename = h @ ''-try-'' @ r @ ''.json''"
proof
  assume m: "match_try h filename = Some (h', r)"
  define rest where "rest = drop (length h + 5) filename"
  from m have p: "prefix (h @ ''-try-'') filename" and hx: "list_all is_hex (take 40 rest)"
    and len: "length (take 40 rest) = 40" and d: "drop 40 rest = ''.json''"
    and res: "h' = h" "r = take 40 rest"
    by (auto simp: match_try_def Let_def rest_def split: if_splits)
  from p obtain zs where zs: "filename = (h @ ''-try-'') @ zs" by (auto simp: prefix_def)
  then have "rest = zs" by (simp add: rest_def)
  moreover have "rest = take 40 rest @ drop 40 rest" by simp
  ultimately have "zs = r @ ''.json''" using d res by metis
  with zs res hx len show "h' = h \<and> length r = 40 \<and> list_all is_hex r \<and>
      filename = h @ ''-try-'' @ r @ ''.json''" by simp
next
  assume "h' = h \<and> length r = 40 \<and> list_all is_hex r \<and> filename = h @ ''-try-'' @ r @ ''.json''"
  then show "match_try h filename = Some (h', r)"
    by (simp add: match_try_def Let_def)
qed

lemma match_try_exclusive:
  "match_try ''xpcshell'' filename = Some m \<Longrightarrow> match_try ''mochitest'' filename = None"
  by (cases filename) (auto simp: match_try_def Let_def split: if_splits)

lemma tryMatch_cases:
  "tryMatch filename = Some m \<longleftrightarrow>
     match_try ''xpcshell'' filename = Some m \<or> match_try ''mochitest'' filename = Some m"
  using match_try_exclusive [of filename]
  by (cases "match_try ''xpcshell'' filename") (auto simp: tryMatch_def)

lemma tryMatch_Some:
  "tryMatch filename = Some (h, r) \<longleftrightarrow>
     (h = ''xpcshell'' \<or> h = ''mochitest'') \<and> length r = 40 \<and> list_all is_hex r \<and>
     filename = h @ ''-try-'' @ r @ ''.json''"
  unfolding tryMatch_cases match_try_Some by blast

lemma page_step_log:
  "page_step net pushId s lg = (r, lg') \<Longrightarrow> lg' = lg @ [to_string (url s)]"
  by (auto simp: page_step_def fetchJson_def fetch_def split: sum.splits if_splits)

lemma fetch_pages_log_snd:
  assumes "fetch_pages net pushId s lg = Some y"
  shows "prefix lg (snd y)"
  using assms
proof (induction rule: fetch_pages.raw_induct [rotated, consumes 1])
  case (1 f net pushId s lg y)
  show ?case
  proof (cases "truthy (url s)")
    case False
    with 1(2) show ?thesis by auto
  next
    case True
    obtain x lg1 where st: "page_step net pushId s lg = (x, lg1)"
      by (cases "page_step net pushId s lg")
    then have l1: "lg1 = lg @ [to_string (url s)]" by (rule page_step_log)
    show ?thesis
    proof (cases x)
      case (Inl e)
      with 1(2) True st l1 show ?thesis by auto
    next
      case (Inr s')
      with 1(2) True st have "f net pushId s' lg1 = Some y" by simp
      then have "prefix lg1 (snd y)" by (rule 1(1))
      with l1 show ?thesis by (auto simp: prefix_def)
    qed
  qed
qed

lemma fetch_pages_log:
  "fetch_pages net pushId s lg = Some (r, lg') \<Longrightarrow> prefix lg lg'"
  using fetch_pages_log_snd by fastforce

lemma findTimings_log:
  assumes "findTimingsJobsForRevision net revision lg = Some (r, lg')"
  shows "prefix (lg @ [push_url revision]) lg'"
proof -
  obtain x lg1 where fj: "fetchJson net (push_url revision) lg = (x, lg1)"
    by (cases "fetchJson net (push_url revision) lg")
  then have l1: "lg1 = lg @ [push_url revision]"
    using fetchJson_log [of net "push_url revision" lg] by simp
  show ?thesis
  proof (cases x)
    case (Inl e)
    with assms fj l1 show ?thesis by (simp add: findTimingsJobsForRevision_def)
  next
    case (Inr pushResult)
    show ?thesis
    proof (cases "push_id_of revision pushResult")
      case (Inl e)
      with assms fj l1 Inr show ?thesis by (simp add: findTimingsJobsForRevision_def)
    next
      case pid: (Inr pushId)
      from assms fj Inr pid obtain y where
        "fetch_pages net pushId \<lparr>allJobs = [], propertyNames = JArr [], url = JStr (jobs_url pushId)\<rparr> lg1 = Some (y, lg')"
        by (auto simp: findTimingsJobsForRevision_def split: option.splits sum.splits)
      then have "prefix lg1 lg'" by (rule fetch_pages_log)
      with l1 show ?thesis by simp
    qed
  qed
qed

lemma try_fallback_log: "try_fallback net filename h revision tj lg = (r, lg') \<Longrightarrow> prefix lg lg'"
  by (auto simp: try_fallback_def fetch_def split: if_splits)

lemma try_artifact_log: "try_artifact net filename h revision tj lg = (r, lg') \<Longrightarrow> prefix lg lg'"
  by (auto simp: try_artifact_def fetch_def split: if_splits sum.splits
           dest!: try_fallback_log elim: prefix_order.trans [rotated] intro: append_prefixD)

lemma fetch_try_revision_log:
  assumes "fetch_try_revision net filename h revision lg = Some (r, lg')"
  shows "prefix (lg @ [push_url revision]) lg'"
proof -
  from assms obtain x lg1 where ft: "findTimingsJobsForRevision net revision lg = Some (x, lg1)"
    and rest: "(case x of Inl e \<Rightarrow> (catch_404 e, lg1)
                | Inr tj \<Rightarrow> try_artifact net filename h revision tj lg1) = (r, lg')"
    by (auto simp: fetch_try_revision_def split: option.splits sum.splits)
  from ft have p1: "prefix (lg @ [push_url revision]) lg1" by (rule findTimings_log)
  from rest have "prefix lg1 lg'"
    by (cases x) (auto dest: try_artifact_log)
  with p1 show ?thesis by (rule prefix_order.trans)
qed

lemma ci_url_not_push_url: "ci_url win h f \<noteq> push_url revision"
  by (simp add: ci_url_def push_url_def Let_def)


lemma replace_xpcshell_prefix:
  assumes "prefix ''xpcshell-'' filename"
  shows "replace_first ''xpcshell-'' ''mochitest-'' filename = ''mochitest-'' @ drop 9 filename"
proof -
  have "replace_first ''xpcshell-'' ''mochitest-'' filename =
          ''mochitest-'' @ drop (length ''xpcshell-'') filename"
    using assms by (rule replace_first_prefix)
  moreover have "length ''xpcshell-'' = 9" by simp
  ultimately show ?thesis by (simp only:)
qed

lemma fetch_remote_eq:
  assumes "net (ci_url win (detectHarness win filename) filename) = Inr r"
  shows "fetch_remote win net filename lg =
     (if \<not> ok r \<and> prefix ''xpcshell-try-'' filename
      then (net (ci_url win ''mochitest'' (''mochitest-'' @ drop 9 filename)),
            lg @ [ci_url win (detectHarness win filename) filename,
                  ci_url win ''mochitest'' (''mochitest-'' @ drop 9 filename)])
      else (Inr r, lg @ [ci_url win (detectHarness win filename) filename]))"
proof (cases "prefix ''xpcshell-try-'' filename")
  case True
  then have "prefix ''xpcshell-'' filename" by (auto simp: prefix_def)
  then have "replace_first ''xpcshell-'' ''mochitest-'' filename = ''mochitest-'' @ drop 9 filename"
    by (rule replace_xpcshell_prefix)
  with assms True show ?thesis
    by (simp add: fetch_remote_def fetchFromCI_def fetch_def)
next
  case False
  with assms show ?thesis
    by (simp add: fetch_remote_def fetchFromCI_def fetch_def)
qed

text \<open>
  C6. In the remote branch for a filename that is no try-revision filename, when the
  fetch from the index of the detected harness gives a response, \<^verbatim>\<open>fetchData\<close> retries
  with \<^verbatim>\<open>xpcshell-\<close> replaced by \<^verbatim>\<open>mochitest-\<close> under the mochitest harness exactly
  when that response is not ok and the filename starts with \<^verbatim>\<open>xpcshell-try-\<close>; in
  every other case the first response is returned and no second request is made.
\<close>

theorem C6_legacy_fallback:
  assumes "protocol win = ''https:''" and "tryMatch filename = None"
    and "net (ci_url win (detectHarness win filename) filename) = Inr r"
  shows "fetchData win net filename lg =
     Some (if \<not> ok r \<and> prefix ''xpcshell-try-'' filename
           then (net (ci_url win ''mochitest'' (''mochitest-'' @ drop 9 filename)),
                 lg @ [ci_url win (detectHarness win filename) filename,
                       ci_url win ''mochitest'' (''mochitest-'' @ drop 9 filename)])
           else (Inr r, lg @ [ci_url win (detectHarness win filename) filename]))"
  using assms fetch_remote_eq [of net win filename r lg] by (simp add: fetchData_def)

lemma fetch_remote_log:
  "\<exists>r rest. fetch_remote win net filename lg =
      (r, lg @ ci_url win (detectHarness win filename) filename # rest) \<and>
      (\<forall>revision. push_url revision \<notin> set (ci_url win (detectHarness win filename) filename # rest))"
  using ci_url_not_push_url [of win]
  by (auto simp: fetch_remote_def fetchFromCI_def fetch_def split: sum.splits) metis+

theorem C6_legacy_fallback_witness:
  "fetchData \<lparr>protocol = ''https:'', hostname = ''localhost'', kind = None\<rparr>
     (\<lambda>u. Inr \<lparr>status = 404, statusText = ''Not Found'', body = Inl (SyntaxError ''no JSON'')\<rparr>)
     ''xpcshell-foo.json'' [] =
   Some (Inr \<lparr>status = 404, statusText = ''Not Found'', body = Inl (SyntaxError ''no JSON'')\<rparr>,
         [ci_url \<lparr>protocol = ''https:'', hostname = ''localhost'', kind = None\<rparr>
            ''xpcshell'' ''xpcshell-foo.json'']) \<and>
   fetchData \<lparr>protocol = ''https:'', hostname = ''localhost'', kind = None\<rparr>
     (\<lambda>u. Inr \<lparr>status = 404, statusText = ''Not Found'', body = Inl (SyntaxError ''no JSON'')\<rparr>)
     ''xpcshell-try-abc.json'' [] =
   Some (Inr \<lparr>status = 404, statusText = ''Not Found'', body = Inl (SyntaxError ''no JSON'')\<rparr>,
         [ci_url \<lparr>protocol = ''https:'', hostname = ''localhost'', kind = None\<rparr>
            ''xpcshell'' ''xpcshell-try-abc.json'',
          ci_url \<lparr>protocol = ''https:'', hostname = ''localhost'', kind = None\<rparr>
            ''mochitest'' ''mochitest-try-abc.json''])"
  using
    C6_legacy_fallback [of "\<lparr>protocol = ''https:'', hostname = ''localhost'', kind = None\<rparr>"
      "''xpcshell-foo.json''"
      "\<lambda>u. Inr \<lparr>status = 404, statusText = ''Not Found'', body = Inl (SyntaxError ''no JSON'')\<rparr>"
      "\<lparr>status = 404, statusText = ''Not Found'', body = Inl (SyntaxError ''no JSON'')\<rparr>" "[]"]
    C6_legacy_fallback [of "\<lparr>protocol = ''https:'', hostname = ''localhost'', kind = None\<rparr>"
      "''xpcshell-try-abc.json''"
      "\<lambda>u. Inr \<lparr>status = 404, statusText = ''Not Found'', body = Inl (SyntaxError ''no JSON'')\<rparr>"
      "\<lparr>status = 404, statusText = ''Not Found'', body = Inl (SyntaxError ''no JSON'')\<rparr>" "[]"]
  by (simp add: tryMatch_def match_try_def detectHarness_def ok_def)

lemmas example_defs = example_net_def example_revision_def example_window_def ok_json_def
  not_found_def example_names_def example_page1_def example_page2_def

lemmas eval_defs = findTimingsJobsForRevision_def fetchJson_def fetch_def ok_def push_id_of_def
  and_then_def push_url_def jobs_url_def artifact_url_def string_of_int_def digits.simps
  fetch_pages.simps page_step_def page_update_def or_else_def find_timings_def suffix_to_prefix

subsection \<open>The scan of the job locator\<close>

lemma timings_suffixes_disjoint:
  assumes "suffix ''xpcshell-timings-rev'' s"
  shows "\<not> suffix ''mochitest-timings-rev'' s"
proof
  assume "suffix ''mochitest-timings-rev'' s"
  with assms have "suffix ''xpcshell-timings-rev'' ''mochitest-timings-rev'' \<or>
      suffix ''mochitest-timings-rev'' ''xpcshell-timings-rev''"
    using suffix_same_cases by blast
  then show False by (simp add: suffix_to_prefix)
qed

lemma get_index_field:
  "job \<noteq> JNull \<Longrightarrow> job \<noteq> JUndefined \<Longrightarrow> get_index job i = Inr (field job i)"
  by (cases job) (simp_all add: field_def)

lemma scan_jobs_skip:
  assumes "job \<noteq> JNull" "job \<noteq> JUndefined" "\<not> passes_filter jn ti st job"
  shows "scan_jobs jn ti st (job # jobs) tj = scan_jobs jn ti st jobs tj"
  using assms by (auto simp: get_index_field and_then_def passes_filter_def)

lemma scan_jobs_step:
  assumes "scannable jn ti st job"
  shows "scan_jobs jn ti st (job # jobs) tj =
     scan_jobs jn ti st jobs
       (if qualifies jn ti st ''xpcshell'' job then tj\<lparr>xpcshell := field job ti\<rparr>
        else if qualifies jn ti st ''mochitest'' job then tj\<lparr>mochitest := field job ti\<rparr>
        else tj)"
proof (cases "passes_filter jn ti st job")
  case False
  with assms show ?thesis
    by (simp add: scan_jobs_skip scannable_def qualifies_def del: scan_jobs.simps)
next
  case True
  with assms obtain s where s: "field job jn = JStr s"
    by (cases "field job jn") (auto simp: scannable_def is_string_def)
  from assms have nn: "job \<noteq> JNull" "job \<noteq> JUndefined" by (simp_all add: scannable_def)
  from True have f: "field job st = JStr ''completed''" "truthy (field job jn)" "truthy (field job ti)"
    by (simp_all add: passes_filter_def)
  show ?thesis
    using True s f timings_suffixes_disjoint [of s]
    by (auto simp: get_index_field [OF nn] and_then_def qualifies_def name_ends_with_def)
qed

lemma case_snoc:
  "(case xs @ [y] of [] \<Rightarrow> a | j # js \<Rightarrow> f j) = (case xs of [] \<Rightarrow> f y | j # js \<Rightarrow> f j)"
  by (cases xs) simp_all

lemma scan_jobs_last:
  assumes "\<forall>job\<in>set jobs. scannable jn ti st job"
  shows "scan_jobs jn ti st jobs tj =
     Inr \<lparr>xpcshell = (case rev (filter (qualifies jn ti st ''xpcshell'') jobs) of
                        [] \<Rightarrow> xpcshell tj | job # earlier \<Rightarrow> field job ti),
          mochitest = (case rev (filter (qualifies jn ti st ''mochitest'') jobs) of
                        [] \<Rightarrow> mochitest tj | job # earlier \<Rightarrow> field job ti)\<rparr>"
  using assms
proof (induction jobs arbitrary: tj)
  case Nil
  then show ?case by simp
next
  case (Cons job jobs)
  then have sc: "scannable jn ti st job" and rest: "\<forall>j\<in>set jobs. scannable jn ti st j"
    by simp_all
  have excl: "qualifies jn ti st ''xpcshell'' job \<Longrightarrow> \<not> qualifies jn ti st ''mochitest'' job"
    using timings_suffixes_disjoint
    by (auto simp: qualifies_def name_ends_with_def split: json.splits)
  show ?case
    unfolding scan_jobs_step [OF sc] Cons.IH [OF rest]
    using excl by (auto simp: case_snoc split: list.splits)
qed

text \<open>
  C2. For rows of the data model (a row has columns, and the job-type name of a row that
  passes the filter is a string), the scan returns for each harness \<open>h\<close> of
  \<^verbatim>\<open>xpcshell\<close> and \<^verbatim>\<open>mochitest\<close> the task id of the last row in listed order whose state
  is exactly \<^verbatim>\<open>"completed"\<close>, whose job-type name and task id are truthy and whose
  job-type name ends with \<^verbatim>\<open><h>-timings-rev\<close>, and \<^verbatim>\<open>null\<close> when there is no such row;
  a row that fails the completed/truthy filter is skipped whatever its name. The scan of
  the locator is this scan at the indices of the three column names.
\<close>

theorem C2_last_match_wins:
  "((\<forall>job\<in>set jobs. scannable jn ti st job) \<longrightarrow>
      scan_jobs jn ti st jobs \<lparr>xpcshell = JNull, mochitest = JNull\<rparr> =
        Inr \<lparr>xpcshell = last_task jn ti st ''xpcshell'' jobs,
             mochitest = last_task jn ti st ''mochitest'' jobs\<rparr>) \<and>
   (job \<noteq> JNull \<longrightarrow> job \<noteq> JUndefined \<longrightarrow> \<not> passes_filter jn ti st job \<longrightarrow>
      scan_jobs jn ti st (job # jobs) tj = scan_jobs jn ti st jobs tj) \<and>
   find_timings (JArr ns) jobs =
     scan_jobs (arr_index_from (JStr ''job_type_name'') ns 0)
       (arr_index_from (JStr ''task_id'') ns 0) (arr_index_from (JStr ''state'') ns 0)
       jobs \<lparr>xpcshell = JNull, mochitest = JNull\<rparr>"
proof (intro conjI impI)
  assume "\<forall>job\<in>set jobs. scannable jn ti st job"
  then show "scan_jobs jn ti st jobs \<lparr>xpcshell = JNull, mochitest = JNull\<rparr> =
        Inr \<lparr>xpcshell = last_task jn ti st ''xpcshell'' jobs,
             mochitest = last_task jn ti st ''mochitest'' jobs\<rparr>"
    by (simp add: scan_jobs_last last_task_def split: list.splits)
next
  assume "job \<noteq> JNull" "job \<noteq> JUndefined" "\<not> passes_filter jn ti st job"
  then show "scan_jobs jn ti st (job # jobs) tj = scan_jobs jn ti st jobs tj"
    by (rule scan_jobs_skip)
next
  show "find_timings (JArr ns) jobs =
     scan_jobs (arr_index_from (JStr ''job_type_name'') ns 0)
       (arr_index_from (JStr ''task_id'') ns 0) (arr_index_from (JStr ''state'') ns 0)
       jobs \<lparr>xpcshell = JNull, mochitest = JNull\<rparr>"
    by (simp add: find_timings_def and_then_def)
qed

theorem C2_last_match_wins_witness:
  "scan_jobs 0 1 2
     [JArr [JStr ''test-info-xpcshell-timings-rev'', JStr ''J1'', JStr ''completed''],
      JArr [JStr ''test-info-xpcshell-timings-rev'', JStr ''J2'', JStr ''completed''],
      JArr [JStr ''test-info-mochitest-timings-rev'', JStr ''J3'', JStr ''completed''],
      JArr [JStr ''test-info-mochitest-timings-rev'', JStr ''J4'', JStr ''running''],
      JArr [JStr ''test-info-mochitest-timings-rev'', JNull, JStr ''completed''],
      JArr [JStr ''build-linux64'', JStr ''J6'', JStr ''completed'']]
     \<lparr>xpcshell = JNull, mochitest = JNull\<rparr> =
   Inr \<lparr>xpcshell = JStr ''J2'', mochitest = JStr ''J3''\<rparr> \<and>
   scan_jobs 0 1 2
     [JArr [JStr ''test-info-xpcshell-timings-rev'', JStr ''J0'', JStr ''pending''],
      JArr [JStr ''test-info-xpcshell-timings-rev'', JStr ''J1'', JStr ''completed''],
      JArr [JStr ''test-info-xpcshell-timings-rev'', JStr ''J2'', JStr ''completed''],
      JArr [JStr ''test-info-mochitest-timings-rev'', JStr ''J3'', JStr ''completed''],
      JArr [JStr ''test-info-mochitest-timings-rev'', JStr ''J4'', JStr ''running''],
      JArr [JStr ''test-info-mochitest-timings-rev'', JNull, JStr ''completed''],
      JArr [JStr ''build-linux64'', JStr ''J6'', JStr ''completed'']]
     \<lparr>xpcshell = JNull, mochitest = JNull\<rparr> =
   Inr \<lparr>xpcshell = JStr ''J2'', mochitest = JStr ''J3''\<rparr>"
  using
    C2_last_match_wins [where
      jobs = "[JArr [JStr ''test-info-xpcshell-timings-rev'', JStr ''J1'', JStr ''completed''],
        JArr [JStr ''test-info-xpcshell-timings-rev'', JStr ''J2'', JStr ''completed''],
        JArr [JStr ''test-info-mochitest-timings-rev'', JStr ''J3'', JStr ''completed''],
        JArr [JStr ''test-info-mochitest-timings-rev'', JStr ''J4'', JStr ''running''],
        JArr [JStr ''test-info-mochitest-timings-rev'', JNull, JStr ''completed''],
        JArr [JStr ''build-linux64'', JStr ''J6'', JStr ''completed'']]"
      and jn = 0 and ti = 1 and st = 2
      and job = "JArr [JStr ''test-info-xpcshell-timings-rev'', JStr ''J0'', JStr ''pending'']"
      and tj = "\<lparr>xpcshell = JNull, mochitest = JNull\<rparr>" and ns = "[]"]
  by (simp add: scannable_def passes_filter_def field_def is_string_def last_task_def
        qualifies_def name_ends_with_def suffix_to_prefix del: scan_jobs.simps)


lemma arr_index_from_absent: "v \<notin> set xs \<Longrightarrow> arr_index_from v xs k = - 1"
  by (induction xs arbitrary: k) auto

lemma scan_jobs_all_skipped:
  assumes "\<forall>job\<in>set jobs. job \<noteq> JNull \<and> job \<noteq> JUndefined \<and> \<not> passes_filter jn ti st job"
  shows "scan_jobs jn ti st jobs tj = Inr tj"
  using assms
proof (induction jobs)
  case Nil
  show ?case by simp
next
  case (Cons job jobs)
  then have "scan_jobs jn ti st (job # jobs) tj = scan_jobs jn ti st jobs tj"
    by (intro scan_jobs_skip) simp_all
  with Cons show ?case by simp
qed

lemma absent_column_fails_filter:
  assumes "get_index job (- 1) = Inr JUndefined" and "jn = - 1 \<or> ti = - 1 \<or> st = - 1"
  shows "job \<noteq> JNull \<and> job \<noteq> JUndefined \<and> \<not> passes_filter jn ti st job"
proof -
  from assms(1) have nn: "job \<noteq> JNull" "job \<noteq> JUndefined" by auto
  from assms(1) have "field job (- 1) = JUndefined" by (simp add: field_def)
  with assms(2) have "\<not> passes_filter jn ti st job"
    by (auto simp: passes_filter_def)
  with nn show ?thesis by simp
qed

lemma find_timings_missing_column:
  assumes "JStr ''job_type_name'' \<notin> set ns \<or> JStr ''task_id'' \<notin> set ns \<or> JStr ''state'' \<notin> set ns"
    and "\<forall>job\<in>set jobs. get_index job (- 1) = Inr JUndefined"
  shows "find_timings (JArr ns) jobs = Inr \<lparr>xpcshell = JNull, mochitest = JNull\<rparr>"
proof -
  define jn where "jn = arr_index_from (JStr ''job_type_name'') ns 0"
  define ti where "ti = arr_index_from (JStr ''task_id'') ns 0"
  define st where "st = arr_index_from (JStr ''state'') ns 0"
  from assms(1) have "jn = - 1 \<or> ti = - 1 \<or> st = - 1"
    unfolding jn_def ti_def st_def using arr_index_from_absent by blast
  with assms(2)
  have "\<forall>job\<in>set jobs. job \<noteq> JNull \<and> job \<noteq> JUndefined \<and> \<not> passes_filter jn ti st job"
    using absent_column_fails_filter by blast
  then have "scan_jobs jn ti st jobs \<lparr>xpcshell = JNull, mochitest = JNull\<rparr> =
               Inr \<lparr>xpcshell = JNull, mochitest = JNull\<rparr>"
    by (rule scan_jobs_all_skipped)
  then show ?thesis
    by (simp add: find_timings_def and_then_def jn_def ti_def st_def)
qed

text \<open>
  C10. When the list of property names lacks \<^verbatim>\<open>job_type_name\<close>, \<^verbatim>\<open>task_id\<close> or
  \<^verbatim>\<open>state\<close>, so that its index is -1, and every row reads as \<^verbatim>\<open>undefined\<close> at -1 (as
  every array does), the scan does not throw: every row fails the filter and the locator
  returns \<^verbatim>\<open>{xpcshell: null, mochitest: null}\<close>.
\<close>

theorem C10_missing_column:
  assumes "fetchJson net (push_url revision) lg = (Inr pushResult, lg1)"
    and "push_id_of revision pushResult = Inr pushId"
    and "fetch_pages net pushId
           \<lparr>allJobs = [], propertyNames = JArr [], url = JStr (jobs_url pushId)\<rparr> lg1 =
         Some (Inr s, lg2)"
    and "propertyNames s = JArr ns"
    and "JStr ''job_type_name'' \<notin> set ns \<or> JStr ''task_id'' \<notin> set ns \<or> JStr ''state'' \<notin> set ns"
    and "\<forall>job\<in>set (allJobs s). get_index job (- 1) = Inr JUndefined"
  shows "findTimingsJobsForRevision net revision lg =
           Some (Inr \<lparr>xpcshell = JNull, mochitest = JNull\<rparr>, lg2)"
  using assms(1-4) find_timings_missing_column [OF assms(5,6)]
  by (simp add: findTimingsJobsForRevision_def)

lemma example_pages_without_state:
  "fetch_pages (example_net (example_page1 (JArr [JStr ''job_type_name'', JStr ''task_id''])) (ok_json example_page2) not_found)
     (JNum 555) \<lparr>allJobs = [], propertyNames = JArr [], url = JStr (jobs_url (JNum 555))\<rparr>
     [push_url example_revision] =
   Some (Inr \<lparr>allJobs =
               [JArr [JStr ''test-info-xpcshell-timings-rev'', JStr ''T1'', JStr ''completed''],
                JArr [JStr ''test-info-xpcshell-timings-rev'', JStr ''T2'', JStr ''running''],
                JArr [JStr ''test-info-mochitest-timings-rev'', JStr ''T3'', JStr ''completed'']],
              propertyNames = JArr [JStr ''job_type_name'', JStr ''task_id''],
              url = JNull\<rparr>,
         [push_url example_revision, jobs_url (JNum 555),
          ''https://treeherder.mozilla.org/api/jobs/?push_id=555&page=2''])"
  by (simp add: example_defs eval_defs)

theorem C10_missing_column_witness:
  "findTimingsJobsForRevision
     (example_net (example_page1 (JArr [JStr ''job_type_name'', JStr ''task_id''])) (ok_json example_page2) not_found)
     example_revision [] =
   Some (Inr \<lparr>xpcshell = JNull, mochitest = JNull\<rparr>,
         [push_url example_revision, jobs_url (JNum 555),
          ''https://treeherder.mozilla.org/api/jobs/?push_id=555&page=2''])"
  using
    C10_missing_column [where
      net = "example_net (example_page1 (JArr [JStr ''job_type_name'', JStr ''task_id''])) (ok_json example_page2) not_found"
      and revision = example_revision and lg = "[]"
      and pushResult = "JObj [(''results'', JArr [JObj [(''id'', JNum 555)]])]"
      and ?lg1.0 = "[push_url example_revision]" and pushId = "JNum 555"
      and ns = "[JStr ''job_type_name'', JStr ''task_id'']",
      OF _ _ example_pages_without_state]
  by (simp add: example_defs fetchJson_def fetch_def ok_def push_id_of_def and_then_def
        push_url_def jobs_url_def artifact_url_def string_of_int_def digits.simps)


subsection \<open>The pagination of the job locator\<close>

lemma truthy_get_member: "truthy v \<Longrightarrow> get_member v k = Inr (member v k)"
  by (cases v) (simp_all add: member_def)

lemma concat_js_append: "concat_js xs v = xs @ concat_js [] v"
  by (cases v) simp_all

lemma truthy_or_else_array: "truthy (or_else a (JArr []))"
  by (simp add: or_else_def)

lemma page_update_truthy:
  assumes "truthy p" and "truthy (propertyNames s)"
  shows "page_update p s =
     Inr \<lparr>allJobs = allJobs s @ page_rows p,
          propertyNames = (if truthy (member (propertyNames s) ''length'') then propertyNames s
                           else or_else (member p ''job_property_names'') (JArr [])),
          url = member p ''next''\<rparr>"
  using assms concat_js_append [of "allJobs s"]
  by (simp add: page_update_def truthy_get_member and_then_def page_rows_def)

lemma page_step_page:
  assumes "truthy (url s)" and "fst (fetchJson net (to_string (url s)) []) = Inr p"
    and "truthy p" and "truthy (propertyNames s)"
  shows "page_step net pushId s lg =
     (Inr \<lparr>allJobs = allJobs s @ page_rows p,
           propertyNames = (if truthy (member (propertyNames s) ''length'') then propertyNames s
                            else or_else (member p ''job_property_names'') (JArr [])),
           url = member p ''next''\<rparr>,
      lg @ [to_string (url s)])"
proof -
  have "fetchJson net (to_string (url s)) lg = (Inr p, lg @ [to_string (url s)])"
    using assms(2) fetchJson_log [of net "to_string (url s)" lg] by simp
  with assms(3) show ?thesis
    by (simp add: page_step_def page_update_truthy [OF assms(3,4)])
qed

lemma fetch_pages_chain:
  assumes "page_chain net (url s) ps" and "truthy (propertyNames s)"
  shows "\<exists>u'. \<not> truthy u' \<and>
     fetch_pages net pushId s lg =
       Some (Inr \<lparr>allJobs = allJobs s @ concat (map page_rows ps),
                  propertyNames = names_after (propertyNames s) ps,
                  url = u'\<rparr>,
             lg @ page_links (url s) ps)"
  using assms
proof (induction ps arbitrary: s lg)
  case Nil
  then have "\<not> truthy (url s)" by simp
  then have "fetch_pages net pushId s lg = Some (Inr s, lg)"
    by (subst fetch_pages.simps) simp
  with \<open>\<not> truthy (url s)\<close> show ?case by auto
next
  case (Cons p ps)
  define s' where "s' = \<lparr>allJobs = allJobs s @ page_rows p,
           propertyNames = (if truthy (member (propertyNames s) ''length'') then propertyNames s
                            else or_else (member p ''job_property_names'') (JArr [])),
           url = member p ''next''\<rparr>"
  from Cons.prems have t: "truthy (url s)"
    and f: "fst (fetchJson net (to_string (url s)) []) = Inr p"
    and tp: "truthy p" and rest: "page_chain net (member p ''next'') ps"
    by simp_all
  have step: "page_step net pushId s lg = (Inr s', lg @ [to_string (url s)])"
    unfolding s'_def using t f tp Cons.prems(2) by (rule page_step_page)
  have unfold: "fetch_pages net pushId s lg = fetch_pages net pushId s' (lg @ [to_string (url s)])"
    by (subst fetch_pages.simps) (simp add: t step)
  have "page_chain net (url s') ps" using rest by (simp add: s'_def)
  moreover have "truthy (propertyNames s')"
    using Cons.prems(2) by (simp add: s'_def truthy_or_else_array)
  ultimately obtain u' where "\<not> truthy u'" and
    "fetch_pages net pushId s' (lg @ [to_string (url s)]) =
       Some (Inr \<lparr>allJobs = allJobs s' @ concat (map page_rows ps),
                  propertyNames = names_after (propertyNames s') ps,
                  url = u'\<rparr>,
             (lg @ [to_string (url s)]) @ page_links (url s') ps)"
    using Cons.IH by blast
  then show ?case
    unfolding unfold by (auto simp: s'_def)
qed

lemma fetch_pages_chain_fails:
  assumes "chain_fails net (url s) ps" and "truthy (propertyNames s)"
  shows "\<exists>lg'. fetch_pages net pushId s lg =
     Some (Inl (Error (''Failed to fetch jobs for push ID '' @ to_string pushId)), lg')"
  using assms
proof (induction ps arbitrary: s lg)
  case Nil
  then have t: "truthy (url s)" and f: "fst (fetchJson net (to_string (url s)) []) = Inr JNull"
    by simp_all
  have "fetchJson net (to_string (url s)) lg = (Inr JNull, lg @ [to_string (url s)])"
    using f fetchJson_log [of net "to_string (url s)" lg] by simp
  then have "page_step net pushId s lg =
      (Inl (Error (''Failed to fetch jobs for push ID '' @ to_string pushId)), lg @ [to_string (url s)])"
    by (simp add: page_step_def)
  then show ?case
    by (subst fetch_pages.simps) (simp add: t)
next
  case (Cons p ps)
  define s' where "s' = \<lparr>allJobs = allJobs s @ page_rows p,
           propertyNames = (if truthy (member (propertyNames s) ''length'') then propertyNames s
                            else or_else (member p ''job_property_names'') (JArr [])),
           url = member p ''next''\<rparr>"
  from Cons.prems have t: "truthy (url s)"
    and f: "fst (fetchJson net (to_string (url s)) []) = Inr p"
    and tp: "truthy p" and rest: "chain_fails net (member p ''next'') ps"
    by simp_all
  have step: "page_step net pushId s lg = (Inr s', lg @ [to_string (url s)])"
    unfolding s'_def using t f tp Cons.prems(2) by (rule page_step_page)
  have unfold: "fetch_pages net pushId s lg = fetch_pages net pushId s' (lg @ [to_string (url s)])"
    by (subst fetch_pages.simps) (simp add: t step)
  have "chain_fails net (url s') ps" using rest by (simp add: s'_def)
  moreover have "truthy (propertyNames s')"
    using Cons.prems(2) by (simp add: s'_def truthy_or_else_array)
  ultimately show ?case
    unfolding unfold by (rule Cons.IH)
qed


text \<open>
  C1. After a successful push lookup, a listing whose pages are linked by \<^verbatim>\<open>next\<close>
  until a page has none is fetched page by page, and the locator returns the scan of the
  rows of all pages, concatenated in order; the rows of a page are its \<^verbatim>\<open>results\<close>.
  When the fetch of a page gives \<^verbatim>\<open>null\<close>, the call throws the error "Failed to fetch
  jobs" and returns no result.
\<close>

theorem C1_pagination:
  assumes "fetchJson net (push_url revision) lg = (Inr pushResult, lg1)"
    and "push_id_of revision pushResult = Inr pushId"
  shows
   "(page_chain net (JStr (jobs_url pushId)) ps \<longrightarrow>
       findTimingsJobsForRevision net revision lg =
         Some (find_timings (names_after (JArr []) ps) (concat (map page_rows ps)),
               lg1 @ page_links (JStr (jobs_url pushId)) ps)) \<and>
    (chain_fails net (JStr (jobs_url pushId)) ps \<longrightarrow>
       (\<exists>lg'. findTimingsJobsForRevision net revision lg =
          Some (Inl (Error (''Failed to fetch jobs for push ID '' @ to_string pushId)), lg'))) \<and>
    (get_member p ''results'' = Inr (JArr rows) \<longrightarrow> page_rows p = rows)"
proof (intro conjI impI)
  let ?s = "\<lparr>allJobs = [], propertyNames = JArr [], url = JStr (jobs_url pushId)\<rparr>"
  {
    assume "page_chain net (JStr (jobs_url pushId)) ps"
    then have "page_chain net (url ?s) ps" by simp
    moreover have "truthy (propertyNames ?s)" by simp
    ultimately obtain u' where
      "fetch_pages net pushId ?s lg1 =
         Some (Inr \<lparr>allJobs = allJobs ?s @ concat (map page_rows ps),
                    propertyNames = names_after (propertyNames ?s) ps, url = u'\<rparr>,
               lg1 @ page_links (url ?s) ps)"
      using fetch_pages_chain by blast
    with assms show "findTimingsJobsForRevision net revision lg =
         Some (find_timings (names_after (JArr []) ps) (concat (map page_rows ps)),
               lg1 @ page_links (JStr (jobs_url pushId)) ps)"
      by (simp add: findTimingsJobsForRevision_def)
  }
  {
    assume "chain_fails net (JStr (jobs_url pushId)) ps"
    then have "chain_fails net (url ?s) ps" by simp
    moreover have "truthy (propertyNames ?s)" by simp
    ultimately obtain lg' where
      "fetch_pages net pushId ?s lg1 =
         Some (Inl (Error (''Failed to fetch jobs for push ID '' @ to_string pushId)), lg')"
      using fetch_pages_chain_fails by blast
    with assms show "\<exists>lg'. findTimingsJobsForRevision net revision lg =
          Some (Inl (Error (''Failed to fetch jobs for push ID '' @ to_string pushId)), lg')"
      by (simp add: findTimingsJobsForRevision_def)
  }
  {
    assume "get_member p ''results'' = Inr (JArr rows)"
    then show "page_rows p = rows"
      by (simp add: page_rows_def member_def or_else_def)
  }
qed

lemmas url_defs = push_url_def jobs_url_def artifact_url_def string_of_int_def digits.simps

lemma example_push:
  "fetchJson (example_net first second artifact) (push_url example_revision) [] =
     (Inr (JObj [(''results'', JArr [JObj [(''id'', JNum 555)]])]), [push_url example_revision])"
  by (simp add: example_defs fetchJson_def fetch_def ok_def url_defs)

lemma example_push_id:
  "push_id_of example_revision (JObj [(''results'', JArr [JObj [(''id'', JNum 555)]])]) =
     Inr (JNum 555)"
  by (simp add: push_id_of_def and_then_def)

lemma example_chain:
  "page_chain (example_net (example_page1 example_names) (ok_json example_page2) artifact)
     (JStr (jobs_url (JNum 555))) [example_page1 example_names, example_page2]"
  by (simp add: example_defs fetchJson_def fetch_def ok_def url_defs member_def)

lemma example_chain_fails:
  "chain_fails (example_net (example_page1 example_names) not_found artifact)
     (JStr (jobs_url (JNum 555))) [example_page1 example_names]"
  by (simp add: example_defs fetchJson_def fetch_def ok_def url_defs member_def)

lemma example_scan:
  "find_timings (names_after (JArr []) [example_page1 example_names, example_page2])
     (concat (map page_rows [example_page1 example_names, example_page2])) =
   Inr \<lparr>xpcshell = JStr ''T1'', mochitest = JStr ''T3''\<rparr>"
  by (simp add: example_defs member_def page_rows_def or_else_def find_timings_def and_then_def
        suffix_to_prefix)

lemma example_links:
  "page_links (JStr (jobs_url (JNum 555))) [example_page1 example_names, example_page2] =
     [jobs_url (JNum 555), ''https://treeherder.mozilla.org/api/jobs/?push_id=555&page=2'']"
  by (simp add: example_defs member_def)

theorem C1_pagination_witness:
  "findTimingsJobsForRevision (example_net (example_page1 example_names) (ok_json example_page2) not_found)
     example_revision [] =
   Some (Inr \<lparr>xpcshell = JStr ''T1'', mochitest = JStr ''T3''\<rparr>,
         [push_url example_revision, jobs_url (JNum 555),
          ''https://treeherder.mozilla.org/api/jobs/?push_id=555&page=2'']) \<and>
   (\<exists>lg'. findTimingsJobsForRevision (example_net (example_page1 example_names) not_found not_found)
      example_revision [] =
    Some (Inl (Error (''Failed to fetch jobs for push ID '' @ to_string (JNum 555))), lg'))"
  using
    C1_pagination [OF example_push [of "example_page1 example_names" "ok_json example_page2" not_found]
      example_push_id, where ps = "[example_page1 example_names, example_page2]"
      and p = example_page2 and rows = "[]"]
    C1_pagination [OF example_push [of "example_page1 example_names" not_found not_found]
      example_push_id, where ps = "[example_page1 example_names]"
      and p = example_page2 and rows = "[]"]
    example_chain [of not_found] example_chain_fails [of not_found] example_scan example_links
  by (simp del: page_chain.simps chain_fails.simps page_links.simps names_after.simps)

subsection \<open>The try-revision branch\<close>

lemma tryMatch_xpcshell:
  "length r = 40 \<Longrightarrow> list_all is_hex r \<Longrightarrow>
     tryMatch (''xpcshell-try-'' @ r @ ''.json'') = Some (''xpcshell'', r)"
  using tryMatch_Some [of "''xpcshell-try-'' @ r @ ''.json''" "''xpcshell''" r] by simp

lemma tryMatch_mochitest:
  "length r = 40 \<Longrightarrow> list_all is_hex r \<Longrightarrow>
     tryMatch (''mochitest-try-'' @ r @ ''.json'') = Some (''mochitest'', r)"
  using tryMatch_Some [of "''mochitest-try-'' @ r @ ''.json''" "''mochitest''" r] by simp

lemma replace_try_filename:
  "replace_first ''xpcshell-'' ''mochitest-'' (''xpcshell-try-'' @ r @ ''.json'') =
     ''mochitest-try-'' @ r @ ''.json''"
  using replace_xpcshell_prefix [of "''xpcshell-try-'' @ r @ ''.json''"] by simp

text \<open>
  C4. On the try-revision path, once the locator has returned: when \<^verbatim>\<open>xpcshell\<close> is
  requested, a mochitest task id exists, and the xpcshell task id is absent or the fetch
  of its artifact gives a response that is not ok, \<^verbatim>\<open>fetchData\<close> fetches the filename
  with its \<^verbatim>\<open>xpcshell-\<close> prefix rewritten to \<^verbatim>\<open>mochitest-\<close> by the mochitest task id and
  returns whatever that fetch yields, with no further request. When \<^verbatim>\<open>mochitest\<close> is
  requested, the only artifact requested is that of the mochitest task id: there is no
  fall-back to xpcshell.
\<close>

theorem C4_mochitest_fallback:
  assumes "protocol win = ''https:''" and "length r = 40" and "list_all is_hex r"
    and "findTimingsJobsForRevision net r lg = Some (Inr tj, lg1)"
  shows
   "(truthy (mochitest tj) \<longrightarrow> \<not> truthy (xpcshell tj) \<longrightarrow>
       fetchData win net (''xpcshell-try-'' @ r @ ''.json'') lg =
         Some (net (artifact_url (mochitest tj) (''mochitest-try-'' @ r @ ''.json'')),
               lg1 @ [artifact_url (mochitest tj) (''mochitest-try-'' @ r @ ''.json'')])) \<and>
    (truthy (mochitest tj) \<longrightarrow> truthy (xpcshell tj) \<longrightarrow>
     net (artifact_url (xpcshell tj) (''xpcshell-try-'' @ r @ ''.json'')) = Inr resp \<longrightarrow>
     \<not> ok resp \<longrightarrow>
       fetchData win net (''xpcshell-try-'' @ r @ ''.json'') lg =
         Some (net (artifact_url (mochitest tj) (''mochitest-try-'' @ r @ ''.json'')),
               lg1 @ [artifact_url (xpcshell tj) (''xpcshell-try-'' @ r @ ''.json''),
                      artifact_url (mochitest tj) (''mochitest-try-'' @ r @ ''.json'')])) \<and>
    fetchData win net (''mochitest-try-'' @ r @ ''.json'') lg =
      Some (if truthy (mochitest tj)
            then (case net (artifact_url (mochitest tj) (''mochitest-try-'' @ r @ ''.json'')) of
                    Inl e \<Rightarrow> catch_404 e
                  | Inr resp \<Rightarrow>
                      if ok resp then Inr resp
                      else catch_404 (Error (''No mochitest-timings job found for revision '' @ r)),
                  lg1 @ [artifact_url (mochitest tj) (''mochitest-try-'' @ r @ ''.json'')])
            else (catch_404 (Error (''No mochitest-timings job found for revision '' @ r)), lg1))"
proof -
  define fx where "fx = ''xpcshell-try-'' @ r @ ''.json''"
  define fm where "fm = ''mochitest-try-'' @ r @ ''.json''"
  have tx: "tryMatch fx = Some (''xpcshell'', r)"
    unfolding fx_def using assms(2,3) by (rule tryMatch_xpcshell)
  have tm: "tryMatch fm = Some (''mochitest'', r)"
    unfolding fm_def using assms(2,3) by (rule tryMatch_mochitest)
  have rp: "replace_first ''xpcshell-'' ''mochitest-'' fx = fm"
    unfolding fx_def fm_def by (rule replace_try_filename)
  have x: "fetchData win net fx lg = Some (try_artifact net fx ''xpcshell'' r tj lg1)"
    using assms(1,4) tx by (simp add: fetchData_def fetch_try_revision_def)
  have m: "fetchData win net fm lg = Some (try_artifact net fm ''mochitest'' r tj lg1)"
    using assms(1,4) tm by (simp add: fetchData_def fetch_try_revision_def)
  have "(truthy (mochitest tj) \<longrightarrow> \<not> truthy (xpcshell tj) \<longrightarrow>
       fetchData win net fx lg =
         Some (net (artifact_url (mochitest tj) fm), lg1 @ [artifact_url (mochitest tj) fm])) \<and>
    (truthy (mochitest tj) \<longrightarrow> truthy (xpcshell tj) \<longrightarrow>
     net (artifact_url (xpcshell tj) fx) = Inr resp \<longrightarrow> \<not> ok resp \<longrightarrow>
       fetchData win net fx lg =
         Some (net (artifact_url (mochitest tj) fm),
               lg1 @ [artifact_url (xpcshell tj) fx, artifact_url (mochitest tj) fm])) \<and>
    fetchData win net fm lg =
      Some (if truthy (mochitest tj)
            then (case net (artifact_url (mochitest tj) fm) of
                    Inl e \<Rightarrow> catch_404 e
                  | Inr resp \<Rightarrow>
                      if ok resp then Inr resp
                      else catch_404 (Error (''No mochitest-timings job found for revision '' @ r)),
                  lg1 @ [artifact_url (mochitest tj) fm])
            else (catch_404 (Error (''No mochitest-timings job found for revision '' @ r)), lg1))"
    unfolding x m
    by (simp add: try_artifact_def try_fallback_def tj_get_def fetch_def rp split: sum.splits)
  then show ?thesis unfolding fx_def fm_def .
qed


lemma example_revision_hex: "length example_revision = 40 \<and> list_all is_hex example_revision"
  by (simp add: example_revision_def is_hex_def)

lemma example_locator:
  "findTimingsJobsForRevision
     (example_net (example_page1 example_names) (ok_json example_page2) artifact)
     example_revision [] =
   Some (Inr \<lparr>xpcshell = JStr ''T1'', mochitest = JStr ''T3''\<rparr>,
         [push_url example_revision, jobs_url (JNum 555),
          ''https://treeherder.mozilla.org/api/jobs/?push_id=555&page=2''])"
  by (simp add: example_defs eval_defs)

lemma example_locator_no_xpcshell:
  "findTimingsJobsForRevision
     (example_net (JObj [(''results'', JArr []), (''job_property_names'', example_names),
                         (''next'', JStr ''https://treeherder.mozilla.org/api/jobs/?push_id=555&page=2'')])
        (ok_json example_page2) artifact)
     example_revision [] =
   Some (Inr \<lparr>xpcshell = JNull, mochitest = JStr ''T3''\<rparr>,
         [push_url example_revision, jobs_url (JNum 555),
          ''https://treeherder.mozilla.org/api/jobs/?push_id=555&page=2''])"
  by (simp add: example_defs eval_defs)

lemma example_artifacts:
  "example_net first second artifact
     (artifact_url (JStr ''T1'') (''xpcshell-try-'' @ example_revision @ ''.json'')) = not_found \<and>
   example_net first second artifact
     (artifact_url (JStr ''T3'') (''mochitest-try-'' @ example_revision @ ''.json'')) = artifact"
  by (simp add: example_defs url_defs)

theorem C4_mochitest_fallback_witness:
  "fetchData example_window
     (example_net (example_page1 example_names) (ok_json example_page2) (ok_json (JObj [])))
     (''xpcshell-try-'' @ example_revision @ ''.json'') [] =
   Some (ok_json (JObj []),
         [push_url example_revision, jobs_url (JNum 555),
          ''https://treeherder.mozilla.org/api/jobs/?push_id=555&page=2'',
          artifact_url (JStr ''T1'') (''xpcshell-try-'' @ example_revision @ ''.json''),
          artifact_url (JStr ''T3'') (''mochitest-try-'' @ example_revision @ ''.json'')]) \<and>
   fetchData example_window
     (example_net (JObj [(''results'', JArr []), (''job_property_names'', example_names),
                         (''next'', JStr ''https://treeherder.mozilla.org/api/jobs/?push_id=555&page=2'')])
        (ok_json example_page2) (ok_json (JObj [])))
     (''xpcshell-try-'' @ example_revision @ ''.json'') [] =
   Some (ok_json (JObj []),
         [push_url example_revision, jobs_url (JNum 555),
          ''https://treeherder.mozilla.org/api/jobs/?push_id=555&page=2'',
          artifact_url (JStr ''T3'') (''mochitest-try-'' @ example_revision @ ''.json'')]) \<and>
   fetchData example_window
     (example_net (example_page1 example_names) (ok_json example_page2) (ok_json (JObj [])))
     (''mochitest-try-'' @ example_revision @ ''.json'') [] =
   Some (ok_json (JObj []),
         [push_url example_revision, jobs_url (JNum 555),
          ''https://treeherder.mozilla.org/api/jobs/?push_id=555&page=2'',
          artifact_url (JStr ''T3'') (''mochitest-try-'' @ example_revision @ ''.json'')])"
proof -
  have https: "protocol example_window = ''https:''" by (simp add: example_window_def)
  have nf: "not_found = Inr \<lparr>status = 404, statusText = ''Not Found'',
                    body = Inl (SyntaxError ''Unexpected token'')\<rparr>"
    by (simp add: not_found_def)
  have oj: "ok \<lparr>status = 200, statusText = ''OK'', body = Inr (JObj [])\<rparr>"
    by (simp add: ok_def)
  note a = C4_mochitest_fallback [OF https conjunct1 [OF example_revision_hex]
      conjunct2 [OF example_revision_hex] example_locator [of "ok_json (JObj [])"],
      of "\<lparr>status = 404, statusText = ''Not Found'',
           body = Inl (SyntaxError ''Unexpected token'')\<rparr>"]
  note b = C4_mochitest_fallback [OF https conjunct1 [OF example_revision_hex]
      conjunct2 [OF example_revision_hex] example_locator_no_xpcshell [of "ok_json (JObj [])"],
      of "\<lparr>status = 404, statusText = ''Not Found'',
           body = Inl (SyntaxError ''Unexpected token'')\<rparr>"]
  from a b show ?thesis
    using example_artifacts [of "example_page1 example_names" "ok_json example_page2" "ok_json (JObj [])"]
      example_artifacts [of "JObj [(''results'', JArr []), (''job_property_names'', example_names),
                         (''next'', JStr ''https://treeherder.mozilla.org/api/jobs/?push_id=555&page=2'')]"
         "ok_json example_page2" "ok_json (JObj [])"]
    by (simp add: nf ok_def ok_json_def)
qed


text \<open>
  C5 states that on the try-revision path \<^verbatim>\<open>fetchData\<close> never rejects, every failure
  becoming a response with status 404. At this input it rejects: \<^verbatim>\<open>xpcshell\<close> is
  requested, its artifact is not found, and the fetch of the mochitest artifact fails.
  That fetch is returned without \<^verbatim>\<open>await\<close>, so its rejection passes the \<^verbatim>\<open>catch\<close>.
  The same failed fetch, awaited because \<^verbatim>\<open>mochitest\<close> is the requested harness,
  becomes the response with status 404.
\<close>

theorem C5_fallback_rejection_escapes:
  "fetchData example_window
     (example_net (example_page1 example_names) (ok_json example_page2)
        (Inl (TypeError ''Failed to fetch'')))
     (''xpcshell-try-'' @ example_revision @ ''.json'') [] =
   Some (Inl (TypeError ''Failed to fetch''),
         [push_url example_revision, jobs_url (JNum 555),
          ''https://treeherder.mozilla.org/api/jobs/?push_id=555&page=2'',
          artifact_url (JStr ''T1'') (''xpcshell-try-'' @ example_revision @ ''.json''),
          artifact_url (JStr ''T3'') (''mochitest-try-'' @ example_revision @ ''.json'')]) \<and>
   fetchData example_window
     (example_net (example_page1 example_names) (ok_json example_page2)
        (Inl (TypeError ''Failed to fetch'')))
     (''mochitest-try-'' @ example_revision @ ''.json'') [] =
   Some (Inr \<lparr>status = 404, statusText = ''Failed to fetch'',
               body = Inl (SyntaxError ''Unexpected end of JSON input'')\<rparr>,
         [push_url example_revision, jobs_url (JNum 555),
          ''https://treeherder.mozilla.org/api/jobs/?push_id=555&page=2'',
          artifact_url (JStr ''T3'') (''mochitest-try-'' @ example_revision @ ''.json'')])"
proof -
  define fx where "fx = ''xpcshell-try-'' @ example_revision @ ''.json''"
  define fm where "fm = ''mochitest-try-'' @ example_revision @ ''.json''"
  define net where "net = example_net (example_page1 example_names) (ok_json example_page2)
        (Inl (TypeError ''Failed to fetch''))"
  have tx: "tryMatch fx = Some (''xpcshell'', example_revision)"
    unfolding fx_def using example_revision_hex by (intro tryMatch_xpcshell) simp_all
  have tm: "tryMatch fm = Some (''mochitest'', example_revision)"
    unfolding fm_def using example_revision_hex by (intro tryMatch_mochitest) simp_all
  have rp: "replace_first ''xpcshell-'' ''mochitest-'' fx = fm"
    unfolding fx_def fm_def by (rule replace_try_filename)
  have loc: "findTimingsJobsForRevision net example_revision [] =
      Some (Inr \<lparr>xpcshell = JStr ''T1'', mochitest = JStr ''T3''\<rparr>,
         [push_url example_revision, jobs_url (JNum 555),
          ''https://treeherder.mozilla.org/api/jobs/?push_id=555&page=2''])"
    unfolding net_def by (rule example_locator)
  have art: "net (artifact_url (JStr ''T1'') fx) = not_found"
    "net (artifact_url (JStr ''T3'') fm) = Inl (TypeError ''Failed to fetch'')"
    unfolding net_def fx_def fm_def using example_artifacts by simp_all
  have rph: "reason_phrase ''Failed to fetch''"
    by (simp add: reason_phrase_def)
  have "fetchData example_window net fx [] =
      Some (Inl (TypeError ''Failed to fetch''),
         [push_url example_revision, jobs_url (JNum 555),
          ''https://treeherder.mozilla.org/api/jobs/?push_id=555&page=2'',
          artifact_url (JStr ''T1'') fx, artifact_url (JStr ''T3'') fm])"
    using tx loc art rp
    by (simp add: fetchData_def example_window_def fetch_try_revision_def try_artifact_def
          try_fallback_def tj_get_def fetch_def not_found_def ok_def)
  moreover have "fetchData example_window net fm [] =
      Some (Inr \<lparr>status = 404, statusText = ''Failed to fetch'',
               body = Inl (SyntaxError ''Unexpected end of JSON input'')\<rparr>,
         [push_url example_revision, jobs_url (JNum 555),
          ''https://treeherder.mozilla.org/api/jobs/?push_id=555&page=2'',
          artifact_url (JStr ''T3'') fm])"
    using tm loc art rph
    by (simp add: fetchData_def example_window_def fetch_try_revision_def try_artifact_def
          tj_get_def fetch_def catch_404_def new_Response_def)
  ultimately show ?thesis unfolding fx_def fm_def net_def by simp
qed

text \<open>
  What the \<^verbatim>\<open>catch\<close> of the try-revision branch does convert: every throw of the
  locator becomes \<^verbatim>\<open>new Response(null, {status: 404, statusText: message})\<close>, and the
  absence of a qualifying job becomes the response with status 404 and the text "No
  <harness>-timings job found for revision <revision>", which is always a valid status
  text.
\<close>

lemma reason_phrase_append: "reason_phrase (a @ b) \<longleftrightarrow> reason_phrase a \<and> reason_phrase b"
  by (simp add: reason_phrase_def)

lemma is_hex_visible:
  "is_hex c \<Longrightarrow> 0x21 \<le> (of_char c :: nat) \<and> (of_char c :: nat) \<le> 0x7E"
  by (auto simp: is_hex_def)

lemma reason_phrase_hex: "list_all is_hex r \<Longrightarrow> reason_phrase r"
  by (induction r) (simp_all add: reason_phrase_def is_hex_visible)

lemma no_job_message_ok:
  assumes "h = ''xpcshell'' \<or> h = ''mochitest''" and "list_all is_hex r"
  shows "reason_phrase (''No '' @ h @ ''-timings job found for revision '' @ r)"
proof -
  have "reason_phrase ''No ''" "reason_phrase ''-timings job found for revision ''"
    "reason_phrase ''xpcshell''" "reason_phrase ''mochitest''"
    by (simp_all add: reason_phrase_def)
  with assms show ?thesis
    by (auto simp only: reason_phrase_append reason_phrase_hex)
qed

lemma try_revision_failures_become_404:
  assumes "protocol win = ''https:''" and "tryMatch filename = Some (h, r)"
  shows "(findTimingsJobsForRevision net r lg = Some (Inl e, lg1) \<longrightarrow>
            fetchData win net filename lg = Some (new_Response 404 (message e), lg1)) \<and>
         (findTimingsJobsForRevision net r lg = Some (Inr tj, lg1) \<longrightarrow>
          \<not> truthy (tj_get tj h) \<longrightarrow> \<not> (h = ''xpcshell'' \<and> truthy (mochitest tj)) \<longrightarrow>
            fetchData win net filename lg =
              Some (Inr \<lparr>status = 404,
                          statusText = ''No '' @ h @ ''-timings job found for revision '' @ r,
                          body = Inl (SyntaxError ''Unexpected end of JSON input'')\<rparr>, lg1))"
proof -
  from assms(2) have h: "h = ''xpcshell'' \<or> h = ''mochitest''" and r: "list_all is_hex r"
    by (simp_all add: tryMatch_Some)
  have msg: "reason_phrase (''No '' @ h @ ''-timings job found for revision '' @ r)"
    using h r by (rule no_job_message_ok)
  have eq: "fetchData win net filename lg = fetch_try_revision net filename h r lg"
    using assms by (simp add: fetchData_def)
  show ?thesis
    unfolding eq using msg
    by (auto simp: fetch_try_revision_def catch_404_def try_artifact_def try_fallback_def
          new_Response_def simp del: append.simps)
qed

subsection \<open>The try-revision path and the job locator\<close>

lemma no_push_message_ok:
  assumes "list_all is_hex r"
  shows "reason_phrase (''No push found for revision '' @ r @ '' on try'')"
proof -
  have "reason_phrase ''No push found for revision ''" "reason_phrase '' on try''"
    by (simp_all add: reason_phrase_def)
  with assms show ?thesis
    by (auto simp only: reason_phrase_append reason_phrase_hex)
qed

lemma locator_no_push:
  assumes "net (push_url r) = Inr resp" and "\<not> ok resp"
  shows "findTimingsJobsForRevision net r lg =
     Some (Inl (Error (''No push found for revision '' @ r @ '' on try'')), lg @ [push_url r])"
  using assms
  by (simp add: findTimingsJobsForRevision_def fetchJson_def fetch_def push_id_of_def
        del: append.simps)

lemma locator_push_rejected:
  assumes "net (push_url r) = Inl e"
  shows "findTimingsJobsForRevision net r lg = Some (Inl e, lg @ [push_url r])"
  using assms by (simp add: findTimingsJobsForRevision_def fetchJson_def fetch_def)

lemma try_branch_by_locator:
  assumes "protocol win = ''https:''" and "tryMatch filename = Some (h, r)"
  shows "fetchData win net filename lg =
     (case findTimingsJobsForRevision net r lg of
        None \<Rightarrow> None
      | Some (Inl e, lg1) \<Rightarrow> Some (catch_404 e, lg1)
      | Some (Inr tj, lg1) \<Rightarrow> Some (try_artifact net filename h r tj lg1))"
  using assms by (simp add: fetchData_def fetch_try_revision_def)

lemma try_branch_returns:
  assumes "protocol win = ''https:''" and "tryMatch filename = Some (h, r)"
    and "findTimingsJobsForRevision net r lg = Some (x, lg1)"
  shows "\<exists>res rest. fetchData win net filename lg = Some (res, lg @ push_url r # rest)"
proof -
  from assms(3) have "prefix (lg @ [push_url r]) lg1" by (rule findTimings_log)
  then obtain m where lg1: "lg1 = lg @ push_url r # m" by (auto simp: prefix_def)
  show ?thesis
  proof (cases x)
    case (Inl e)
    with assms lg1 show ?thesis by (simp add: try_branch_by_locator)
  next
    case (Inr tj)
    obtain res lg' where ta: "try_artifact net filename h r tj lg1 = (res, lg')"
      by (cases "try_artifact net filename h r tj lg1")
    then have "prefix lg1 lg'" by (rule try_artifact_log)
    then obtain n where "lg' = lg1 @ n" by (auto simp: prefix_def)
    with lg1 have "lg' = lg @ push_url r # (m @ n)" by simp
    with assms Inr ta show ?thesis by (simp add: try_branch_by_locator)
  qed
qed


text \<open>
  C3. In remote mode \<^verbatim>\<open>fetchData\<close> takes the try-revision path exactly for the filenames
  \<^verbatim>\<open>(xpcshell|mochitest)-try-<40 lowercase hex characters>.json\<close>. On that path it is
  the job locator that decides the outcome: \<^verbatim>\<open>fetchData\<close> returns whenever the locator
  does, and its first request is then the push lookup; in particular a push lookup that
  is not ok gives the response 404 "No push found", with the push lookup the only
  request. Every other filename goes to the index fetch and never to the locator.
  \<^verbatim>\<open>xpcshell-try-abc.json\<close> does not match, and when its index fetch is not ok it reaches
  the fall-back to \<^verbatim>\<open>mochitest-try-abc.json\<close>.
\<close>

theorem C3_try_revision_dispatch:
  "(tryMatch filename = Some (h, r) \<longleftrightarrow>
      (h = ''xpcshell'' \<or> h = ''mochitest'') \<and> length r = 40 \<and> list_all is_hex r \<and>
      filename = h @ ''-try-'' @ r @ ''.json'') \<and>
   (protocol win = ''https:'' \<longrightarrow> tryMatch filename = Some (h, r) \<longrightarrow>
      fetchData win net filename lg =
        (case findTimingsJobsForRevision net r lg of
           None \<Rightarrow> None
         | Some (Inl e, lg1) \<Rightarrow> Some (catch_404 e, lg1)
         | Some (Inr tj, lg1) \<Rightarrow> Some (try_artifact net filename h r tj lg1)) \<and>
      fetchData win net filename lg = fetch_try_revision net filename h r lg \<and>
      (\<forall>x lg1. findTimingsJobsForRevision net r lg = Some (x, lg1) \<longrightarrow>
         (\<exists>res rest. fetchData win net filename lg = Some (res, lg @ push_url r # rest))) \<and>
      (\<forall>resp. net (push_url r) = Inr resp \<longrightarrow> \<not> ok resp \<longrightarrow>
         fetchData win net filename lg =
           Some (Inr \<lparr>status = 404,
                       statusText = ''No push found for revision '' @ r @ '' on try'',
                       body = Inl (SyntaxError ''Unexpected end of JSON input'')\<rparr>,
                 lg @ [push_url r])) \<and>
      (\<forall>e. net (push_url r) = Inl e \<longrightarrow>
         fetchData win net filename lg = Some (catch_404 e, lg @ [push_url r])) \<and>
      (\<forall>res lg'. fetchData win net filename lg = Some (res, lg') \<longrightarrow>
         prefix (lg @ [push_url r]) lg')) \<and>
   (protocol win = ''https:'' \<longrightarrow> tryMatch filename = None \<longrightarrow>
      (\<exists>res rest. fetchData win net filename lg =
           Some (res, lg @ ci_url win (detectHarness win filename) filename # rest) \<and>
         (\<forall>revision. push_url revision \<notin>
            set (ci_url win (detectHarness win filename) filename # rest)))) \<and>
   tryMatch ''xpcshell-try-abc.json'' = None \<and>
   (protocol win = ''https:'' \<longrightarrow>
    net (ci_url win ''xpcshell'' ''xpcshell-try-abc.json'') = Inr r0 \<longrightarrow> \<not> ok r0 \<longrightarrow>
      fetchData win net ''xpcshell-try-abc.json'' lg =
        Some (net (ci_url win ''mochitest'' ''mochitest-try-abc.json''),
              lg @ [ci_url win ''xpcshell'' ''xpcshell-try-abc.json'',
                    ci_url win ''mochitest'' ''mochitest-try-abc.json'']))"
proof (intro conjI impI allI)
  show "tryMatch filename = Some (h, r) \<longleftrightarrow>
      (h = ''xpcshell'' \<or> h = ''mochitest'') \<and> length r = 40 \<and> list_all is_hex r \<and>
      filename = h @ ''-try-'' @ r @ ''.json''"
    by (rule tryMatch_Some)
next
  assume a: "protocol win = ''https:''" "tryMatch filename = Some (h, r)"
  then show "fetchData win net filename lg =
        (case findTimingsJobsForRevision net r lg of
           None \<Rightarrow> None
         | Some (Inl e, lg1) \<Rightarrow> Some (catch_404 e, lg1)
         | Some (Inr tj, lg1) \<Rightarrow> Some (try_artifact net filename h r tj lg1))"
    by (rule try_branch_by_locator)
  from a show eq: "fetchData win net filename lg = fetch_try_revision net filename h r lg"
    by (simp add: fetchData_def)
  {
    fix x lg1
    assume "findTimingsJobsForRevision net r lg = Some (x, lg1)"
    with a show "\<exists>res rest. fetchData win net filename lg = Some (res, lg @ push_url r # rest)"
      by (rule try_branch_returns)
  }
  {
    fix resp
    assume "net (push_url r) = Inr resp" "\<not> ok resp"
    then have loc: "findTimingsJobsForRevision net r lg =
        Some (Inl (Error (''No push found for revision '' @ r @ '' on try'')), lg @ [push_url r])"
      by (rule locator_no_push)
    from a(2) have "list_all is_hex r" by (simp add: tryMatch_Some)
    then have "reason_phrase (''No push found for revision '' @ r @ '' on try'')"
      by (rule no_push_message_ok)
    then show "fetchData win net filename lg =
           Some (Inr \<lparr>status = 404,
                       statusText = ''No push found for revision '' @ r @ '' on try'',
                       body = Inl (SyntaxError ''Unexpected end of JSON input'')\<rparr>,
                 lg @ [push_url r])"
      unfolding try_branch_by_locator [OF a] loc
      by (simp add: catch_404_def new_Response_def del: append.simps)
  }
  {
    fix e
    assume "net (push_url r) = Inl e"
    then have "findTimingsJobsForRevision net r lg = Some (Inl e, lg @ [push_url r])"
      by (rule locator_push_rejected)
    then show "fetchData win net filename lg = Some (catch_404 e, lg @ [push_url r])"
      unfolding try_branch_by_locator [OF a] by simp
  }
  {
    fix res lg'
    assume "fetchData win net filename lg = Some (res, lg')"
    then show "prefix (lg @ [push_url r]) lg'"
      unfolding eq by (rule fetch_try_revision_log)
  }
next
  assume "protocol win = ''https:''" "tryMatch filename = None"
  then have "fetchData win net filename lg = Some (fetch_remote win net filename lg)"
    by (simp add: fetchData_def)
  then show "\<exists>res rest. fetchData win net filename lg =
           Some (res, lg @ ci_url win (detectHarness win filename) filename # rest) \<and>
         (\<forall>revision. push_url revision \<notin>
            set (ci_url win (detectHarness win filename) filename # rest))"
    using fetch_remote_log [of win net filename lg] by auto
next
  show n: "tryMatch ''xpcshell-try-abc.json'' = None"
    by (simp add: tryMatch_def match_try_def)
  assume a: "protocol win = ''https:''"
    "net (ci_url win ''xpcshell'' ''xpcshell-try-abc.json'') = Inr r0" "\<not> ok r0"
  have d: "detectHarness win ''xpcshell-try-abc.json'' = ''xpcshell''"
    by (simp add: detectHarness_def)
  show "fetchData win net ''xpcshell-try-abc.json'' lg =
        Some (net (ci_url win ''mochitest'' ''mochitest-try-abc.json''),
              lg @ [ci_url win ''xpcshell'' ''xpcshell-try-abc.json'',
                    ci_url win ''mochitest'' ''mochitest-try-abc.json''])"
    using a n d fetch_remote_eq [of net win "''xpcshell-try-abc.json''" r0 lg]
    by (simp add: fetchData_def)
qed


theorem C3_try_revision_dispatch_witness:
  "tryMatch (''xpcshell-try-'' @ example_revision @ ''.json'') =
     Some (''xpcshell'', example_revision) \<and>
   fetchData example_window (\<lambda>u. not_found)
     (''xpcshell-try-'' @ example_revision @ ''.json'') [] =
   Some (Inr \<lparr>status = 404,
               statusText = ''No push found for revision '' @ example_revision @ '' on try'',
               body = Inl (SyntaxError ''Unexpected end of JSON input'')\<rparr>,
         [push_url example_revision]) \<and>
   fetchData example_window
     (example_net (example_page1 example_names) (ok_json example_page2) (ok_json (JObj [])))
     (''mochitest-try-'' @ example_revision @ ''.json'') [] =
   Some (ok_json (JObj []),
         [push_url example_revision, jobs_url (JNum 555),
          ''https://treeherder.mozilla.org/api/jobs/?push_id=555&page=2'',
          artifact_url (JStr ''T3'') (''mochitest-try-'' @ example_revision @ ''.json'')]) \<and>
   tryMatch ''xpcshell-try-abc.json'' = None \<and>
   fetchData example_window (\<lambda>u. not_found) ''xpcshell-try-abc.json'' [] =
   Some (not_found,
         [ci_url example_window ''xpcshell'' ''xpcshell-try-abc.json'',
          ci_url example_window ''mochitest'' ''mochitest-try-abc.json''])"
proof -
  define fx where "fx = ''xpcshell-try-'' @ example_revision @ ''.json''"
  define fm where "fm = ''mochitest-try-'' @ example_revision @ ''.json''"
  define netA :: network where "netA = (\<lambda>u. not_found)"
  define netB where "netB =
    example_net (example_page1 example_names) (ok_json example_page2) (ok_json (JObj []))"
  define resp where "resp = \<lparr>status = 404, statusText = ''Not Found'',
                    body = Inl (SyntaxError ''Unexpected token'')\<rparr>"
  have https: "protocol example_window = ''https:''" by (simp add: example_window_def)
  have tx: "tryMatch fx = Some (''xpcshell'', example_revision)"
    unfolding fx_def using example_revision_hex by (intro tryMatch_xpcshell) simp_all
  have tm: "tryMatch fm = Some (''mochitest'', example_revision)"
    unfolding fm_def using example_revision_hex by (intro tryMatch_mochitest) simp_all
  have nA: "netA u = Inr resp" "\<not> ok resp" for u
    by (simp_all add: netA_def not_found_def resp_def ok_def)
  have loc: "findTimingsJobsForRevision netB example_revision [] =
      Some (Inr \<lparr>xpcshell = JStr ''T1'', mochitest = JStr ''T3''\<rparr>,
         [push_url example_revision, jobs_url (JNum 555),
          ''https://treeherder.mozilla.org/api/jobs/?push_id=555&page=2''])"
    unfolding netB_def by (rule example_locator)
  have art: "netB (artifact_url (JStr ''T3'') fm) = ok_json (JObj [])"
    unfolding netB_def fm_def using example_artifacts by simp
  note A = C3_try_revision_dispatch [where filename = fx and h = "''xpcshell''"
      and r = example_revision and win = example_window and net = netA and lg = "[]"
      and ?r0.0 = resp, THEN conjunct2]
  note B = C3_try_revision_dispatch [where filename = fm and h = "''mochitest''"
      and r = example_revision and win = example_window and net = netB and lg = "[]"
      and ?r0.0 = resp, THEN conjunct2]
  from A https tx nA
  have a1: "fetchData example_window netA fx [] =
      Some (Inr \<lparr>status = 404,
               statusText = ''No push found for revision '' @ example_revision @ '' on try'',
               body = Inl (SyntaxError ''Unexpected end of JSON input'')\<rparr>,
         [] @ [push_url example_revision])"
    by blast
  from A https nA
  have a2: "tryMatch ''xpcshell-try-abc.json'' = None \<and>
      fetchData example_window netA ''xpcshell-try-abc.json'' [] =
      Some (netA (ci_url example_window ''mochitest'' ''mochitest-try-abc.json''),
         [] @ [ci_url example_window ''xpcshell'' ''xpcshell-try-abc.json'',
               ci_url example_window ''mochitest'' ''mochitest-try-abc.json''])"
    by blast
  from B https tm
  have "fetchData example_window netB fm [] =
      (case findTimingsJobsForRevision netB example_revision [] of
         None \<Rightarrow> None
       | Some (Inl e, lg1) \<Rightarrow> Some (catch_404 e, lg1)
       | Some (Inr tj, lg1) \<Rightarrow> Some (try_artifact netB fm ''mochitest'' example_revision tj lg1))"
    by blast
  with loc art
  have b1: "fetchData example_window netB fm [] =
      Some (ok_json (JObj []),
         [push_url example_revision, jobs_url (JNum 555),
          ''https://treeherder.mozilla.org/api/jobs/?push_id=555&page=2'',
          artifact_url (JStr ''T3'') fm])"
    by (simp add: try_artifact_def tj_get_def fetch_def ok_json_def ok_def)
  from tx a1 a2 b1 show ?thesis
    unfolding fx_def fm_def netA_def netB_def resp_def not_found_def by simp
qed

end
